theory Spec2Isabelle
  imports Complex_Main "HOL-Library.Sublist"
begin

section \<open>Python values\<close>

text \<open>
  The inference pipeline of the triage service (\<^verbatim>\<open>services/inference.py\<close>,
  \<^verbatim>\<open>services/routing.py\<close>, \<^verbatim>\<open>services/explain.py\<close>) works on loosely typed
  JSON data.  A Python value is modelled by \<open>pyval\<close>; a dictionary is an association
  list in insertion order, whose keys are distinct in every dictionary that Python can
  build.

  A Python float is \<open>pyfloat\<close>: a finite value, one of the two infinities, or NaN.
  A finite float is idealised as the real number it stands for, so the rounding of an
  arithmetic result to the nearest double is not modelled; what is modelled is the
  range of a double: a number whose magnitude reaches \<open>2 ^ 1024 - 2 ^ 970\<close> has no
  finite double.  Strings are sequences of ASCII characters.
\<close>

datatype pyfloat = Fin real | PosInf | NegInf | NaN

datatype pyval =
    PNone
  | PBool bool
  | PInt int
  | PFloat pyfloat
  | PStr string
  | PList "pyval list"
  | PDict "(string \<times> pyval) list"

datatype error = KeyError | TypeError | ValueError | OverflowError | IndexError

type_synonym pydict = "(string \<times> pyval) list"

subsection \<open>Dictionaries\<close>

text \<open>\<^verbatim>\<open>d.get(k, default)\<close>; \<^verbatim>\<open>d.get(k)\<close> is \<open>dict_get d k PNone\<close>.\<close>

definition dict_get :: "pydict \<Rightarrow> string \<Rightarrow> pyval \<Rightarrow> pyval" where
  "dict_get d k dflt = (case map_of d k of None \<Rightarrow> dflt | Some v \<Rightarrow> v)"

text \<open>\<^verbatim>\<open>d[k]\<close>, which raises \<^verbatim>\<open>KeyError\<close> on an absent key.\<close>

definition dict_index :: "pydict \<Rightarrow> string \<Rightarrow> error + pyval" where
  "dict_index d k = (case map_of d k of None \<Rightarrow> Inl KeyError | Some v \<Rightarrow> Inr v)"

text \<open>Sequencing of computations that may raise.\<close>

definition then_do :: "error + 'a \<Rightarrow> ('a \<Rightarrow> error + 'b) \<Rightarrow> error + 'b" where
  "then_do m f = (case m of Inl e \<Rightarrow> Inl e | Inr x \<Rightarrow> f x)"

text \<open>\<^verbatim>\<open>d[k] = v\<close>: an existing key keeps its place, a new key goes last.\<close>

fun dict_set :: "('k \<times> 'v) list \<Rightarrow> 'k \<Rightarrow> 'v \<Rightarrow> ('k \<times> 'v) list" where
  "dict_set [] k v = [(k, v)]"
| "dict_set ((k', v') # d) k v =
     (if k' = k then (k, v) # d else (k', v') # dict_set d k v)"

text \<open>\<^verbatim>\<open>d.pop(k, default)\<close>, the dictionary that is left.\<close>

definition dict_pop :: "pydict \<Rightarrow> string \<Rightarrow> pydict" where
  "dict_pop d k = filter (\<lambda>kv. fst kv \<noteq> k) d"

subsection \<open>Strings\<close>

text \<open>
  \<^verbatim>\<open>str.strip()\<close> removes the characters for which \<^verbatim>\<open>str.isspace()\<close> holds: among
  the ASCII characters these are the codes 9 to 13 and 28 to 32.
\<close>

definition py_isspace :: "char \<Rightarrow> bool" where
  "py_isspace c = (let n = (of_char c :: nat) in (9 \<le> n \<and> n \<le> 13) \<or> (28 \<le> n \<and> n \<le> 32))"

definition strip :: "string \<Rightarrow> string" where
  "strip s = rev (dropWhile py_isspace (rev (dropWhile py_isspace s)))"

text \<open>\<^verbatim>\<open>s.split(c)\<close> for a one-character separator: never an empty list.\<close>

fun split_on :: "char \<Rightarrow> string \<Rightarrow> string list" where
  "split_on c [] = [[]]"
| "split_on c (x # xs) =
     (if x = c then [] # split_on c xs
      else (case split_on c xs of
              [] \<Rightarrow> [[x]]
            | w # ws \<Rightarrow> (x # w) # ws))"

text \<open>\<^verbatim>\<open>",".join(items)\<close>.\<close>

fun comma_join :: "string list \<Rightarrow> string" where
  "comma_join [] = []"
| "comma_join [x] = x"
| "comma_join (x # y # zs) = x @ CHR '','' # comma_join (y # zs)"

text \<open>The substring test \<^verbatim>\<open>p in s\<close> on two strings.\<close>

fun is_substring :: "string \<Rightarrow> string \<Rightarrow> bool" where
  "is_substring p [] = (p = [])"
| "is_substring p (x # xs) = (prefix p (x # xs) \<or> is_substring p xs)"

text \<open>The decimal digits of a number, as \<^verbatim>\<open>str\<close> prints an \<^verbatim>\<open>int\<close>.\<close>

definition digit_char :: "nat \<Rightarrow> char" where
  "digit_char d = char_of (48 + d)"

fun string_of_nat :: "nat \<Rightarrow> string" where
  "string_of_nat n =
     (if n < 10 then [digit_char n] else string_of_nat (n div 10) @ [digit_char (n mod 10)])"

definition string_of_int :: "int \<Rightarrow> string" where
  "string_of_int i = (if i < 0 then CHR ''-'' # string_of_nat (nat (- i)) else string_of_nat (nat i))"

text \<open>
  \<^verbatim>\<open>str(v)\<close>.  The text that Python prints for a float, a list or a dictionary is the
  work of the interpreter; it is the parameter \<open>rp\<close>.
\<close>

fun py_str :: "(pyval \<Rightarrow> string) \<Rightarrow> pyval \<Rightarrow> string" where
  "py_str rp (PStr s) = s"
| "py_str rp PNone = ''None''"
| "py_str rp (PBool b) = (if b then ''True'' else ''False'')"
| "py_str rp (PInt i) = string_of_int i"
| "py_str rp v = rp v"

section \<open>Feature normaliser\<close>

text \<open>\<^verbatim>\<open>_normalize_symptoms\<close> and \<^verbatim>\<open>_normalize_conditions\<close> (inference.py, 19-32).\<close>

fun normalize_symptoms :: "(pyval \<Rightarrow> string) \<Rightarrow> pyval \<Rightarrow> string list" where
  "normalize_symptoms rp (PList raw_symptoms) =
     map (\<lambda>item. strip (py_str rp item))
       (filter (\<lambda>item. strip (py_str rp item) \<noteq> []) raw_symptoms)"
| "normalize_symptoms rp (PStr raw_symptoms) =
     map strip (filter (\<lambda>item. strip item \<noteq> []) (split_on CHR '','' raw_symptoms))"
| "normalize_symptoms rp _ = []"

fun normalize_conditions :: "(pyval \<Rightarrow> string) \<Rightarrow> pyval \<Rightarrow> string list" where
  "normalize_conditions rp (PList raw_conditions) =
     map (\<lambda>item. strip (py_str rp item))
       (filter (\<lambda>item. strip (py_str rp item) \<noteq> []) raw_conditions)"
| "normalize_conditions rp (PStr raw_conditions) =
     map strip (filter (\<lambda>item. strip item \<noteq> []) (split_on CHR '','' raw_conditions))"
| "normalize_conditions rp _ = []"

section \<open>Numbers read from loosely typed values\<close>

text \<open>
  \<^verbatim>\<open>float(s)\<close> and \<^verbatim>\<open>int(s)\<close> on a string drop the blanks around it (codes 9 to 13
  and 32), read an optional sign, and accept an underscore only between two digits.
\<close>

definition num_isspace :: "char \<Rightarrow> bool" where
  "num_isspace c = (let n = (of_char c :: nat) in (9 \<le> n \<and> n \<le> 13) \<or> n = 32)"

definition num_strip :: "string \<Rightarrow> string" where
  "num_strip s = rev (dropWhile num_isspace (rev (dropWhile num_isspace s)))"

definition is_digit :: "char \<Rightarrow> bool" where
  "is_digit c = (let n = (of_char c :: nat) in 48 \<le> n \<and> n \<le> 57)"

definition digit_val :: "char \<Rightarrow> nat" where
  "digit_val c = of_char c - 48"

definition nat_of_digits :: "string \<Rightarrow> nat" where
  "nat_of_digits ds = foldl (\<lambda>acc c. 10 * acc + digit_val c) 0 ds"

fun underscores_ok :: "char option \<Rightarrow> string \<Rightarrow> bool" where
  "underscores_ok prev [] = True"
| "underscores_ok prev (c # cs) =
     (if c = CHR ''_''
      then (case prev of None \<Rightarrow> False | Some p \<Rightarrow> is_digit p)
         \<and> (case cs of [] \<Rightarrow> False | d # _ \<Rightarrow> is_digit d)
         \<and> underscores_ok (Some c) cs
      else underscores_ok (Some c) cs)"

definition drop_underscores :: "string \<Rightarrow> string" where
  "drop_underscores s = filter (\<lambda>c. c \<noteq> CHR ''_'') s"

definition to_lower :: "char \<Rightarrow> char" where
  "to_lower c = (let n = (of_char c :: nat) in if 65 \<le> n \<and> n \<le> 90 then char_of (n + 32) else c)"

text \<open>A sign in front: whether it is a minus, and the text after it.\<close>

fun split_sign :: "string \<Rightarrow> bool \<times> string" where
  "split_sign [] = (False, [])"
| "split_sign (c # cs) =
     (if c = CHR ''-'' then (True, cs) else if c = CHR ''+'' then (False, cs) else (False, c # cs))"

text \<open>\<open>m\<close> times ten to the power \<open>k\<close>.\<close>

definition scale10 :: "nat \<Rightarrow> int \<Rightarrow> real" where
  "scale10 m k = (if 0 \<le> k then of_nat m * 10 ^ nat k else of_nat m / 10 ^ nat (- k))"

text \<open>An exponent part after the letter: an optional sign and at least one digit.\<close>

definition parse_exponent :: "string \<Rightarrow> int option" where
  "parse_exponent s =
     (case split_sign s of (neg, ds) \<Rightarrow>
        if ds \<noteq> [] \<and> list_all is_digit ds
        then Some (if neg then - int (nat_of_digits ds) else int (nat_of_digits ds))
        else None)"

text \<open>A decimal number without sign: digits, an optional point with digits on at least
  one side, an optional exponent.\<close>

definition parse_decimal :: "string \<Rightarrow> real option" where
  "parse_decimal s =
     (let ip = takeWhile is_digit s; r1 = dropWhile is_digit s;
          fp = (case r1 of [] \<Rightarrow> [] | c # t \<Rightarrow> if c = CHR ''.'' then takeWhile is_digit t else []);
          r2 = (case r1 of [] \<Rightarrow> [] | c # t \<Rightarrow> if c = CHR ''.'' then dropWhile is_digit t else r1)
      in if ip = [] \<and> fp = [] then None
         else (case r2 of
                 [] \<Rightarrow> Some (scale10 (nat_of_digits (ip @ fp)) (- int (length fp)))
               | e # r3 \<Rightarrow>
                   if e = CHR ''e'' \<or> e = CHR ''E''
                   then (case parse_exponent r3 of
                           None \<Rightarrow> None
                         | Some x \<Rightarrow> Some (scale10 (nat_of_digits (ip @ fp)) (x - int (length fp))))
                   else None))"

text \<open>The least magnitude that a double cannot hold as a finite value.\<close>

definition float_limit :: real where
  "float_limit = 2 ^ 1024 - 2 ^ 970"

definition float_of_real :: "bool \<Rightarrow> real \<Rightarrow> pyfloat" where
  "float_of_real neg x =
     (if float_limit \<le> x then (if neg then NegInf else PosInf) else Fin (if neg then - x else x))"

text \<open>\<^verbatim>\<open>float(s)\<close> on a string; \<open>None\<close> stands for \<^verbatim>\<open>ValueError\<close>.\<close>

definition float_of_string :: "string \<Rightarrow> pyfloat option" where
  "float_of_string s =
     (case split_sign (num_strip s) of (neg, body) \<Rightarrow>
        let low = map to_lower body
        in if low = ''inf'' \<or> low = ''infinity'' then Some (if neg then NegInf else PosInf)
           else if low = ''nan'' then Some NaN
           else if \<not> underscores_ok None body then None
           else (case parse_decimal (drop_underscores body) of
                   None \<Rightarrow> None
                 | Some x \<Rightarrow> Some (float_of_real neg x)))"

text \<open>\<^verbatim>\<open>int(s)\<close> on a string; \<open>None\<close> stands for \<^verbatim>\<open>ValueError\<close>.\<close>

definition int_of_string :: "string \<Rightarrow> int option" where
  "int_of_string s =
     (case split_sign (num_strip s) of (neg, body) \<Rightarrow>
        let ds = drop_underscores body
        in if underscores_ok None body \<and> ds \<noteq> [] \<and> list_all is_digit ds
           then Some (if neg then - int (nat_of_digits ds) else int (nat_of_digits ds))
           else None)"

text \<open>\<^verbatim>\<open>float(v)\<close>.\<close>

fun py_float :: "pyval \<Rightarrow> error + pyfloat" where
  "py_float (PFloat f) = Inr f"
| "py_float (PInt i) = (if \<bar>of_int i\<bar> < float_limit then Inr (Fin (of_int i)) else Inl OverflowError)"
| "py_float (PBool b) = Inr (Fin (if b then 1 else 0))"
| "py_float (PStr s) = (case float_of_string s of None \<Rightarrow> Inl ValueError | Some f \<Rightarrow> Inr f)"
| "py_float _ = Inl TypeError"

text \<open>\<^verbatim>\<open>int(v)\<close>: a float is cut towards zero.\<close>

definition trunc_toward_zero :: "real \<Rightarrow> int" where
  "trunc_toward_zero x = (if 0 \<le> x then \<lfloor>x\<rfloor> else \<lceil>x\<rceil>)"

fun py_int :: "pyval \<Rightarrow> error + int" where
  "py_int (PInt i) = Inr i"
| "py_int (PBool b) = Inr (if b then 1 else 0)"
| "py_int (PFloat (Fin x)) = Inr (trunc_toward_zero x)"
| "py_int (PFloat NaN) = Inl ValueError"
| "py_int (PFloat _) = Inl OverflowError"
| "py_int (PStr s) = (case int_of_string s of None \<Rightarrow> Inl ValueError | Some i \<Rightarrow> Inr i)"
| "py_int _ = Inl TypeError"

text \<open>\<^verbatim>\<open>v > k\<close> for a numeric constant \<open>k\<close>: a comparison with NaN is false, a value
  that is no number raises \<^verbatim>\<open>TypeError\<close>.\<close>

fun float_gt :: "pyfloat \<Rightarrow> real \<Rightarrow> bool" where
  "float_gt (Fin x) k = (k < x)"
| "float_gt PosInf k = True"
| "float_gt _ k = False"

fun py_gt :: "pyval \<Rightarrow> real \<Rightarrow> error + bool" where
  "py_gt (PInt i) k = Inr (k < of_int i)"
| "py_gt (PFloat f) k = Inr (float_gt f k)"
| "py_gt (PBool b) k = Inr (k < (if b then 1 else 0))"
| "py_gt _ k = Inl TypeError"

text \<open>The truth value of a Python value, and \<^verbatim>\<open>a or b\<close>.\<close>

fun truthy :: "pyval \<Rightarrow> bool" where
  "truthy PNone = False"
| "truthy (PBool b) = b"
| "truthy (PInt i) = (i \<noteq> 0)"
| "truthy (PFloat (Fin x)) = (x \<noteq> 0)"
| "truthy (PFloat _) = True"
| "truthy (PStr s) = (s \<noteq> [])"
| "truthy (PList xs) = (xs \<noteq> [])"
| "truthy (PDict d) = (d \<noteq> [])"

definition py_or :: "pyval \<Rightarrow> pyval \<Rightarrow> pyval" where
  "py_or a b = (if truthy a then a else b)"

text \<open>\<^verbatim>\<open>s in v\<close> for a string \<open>s\<close>: an element of a list, a substring of a string, a
  key of a dictionary; any other value is not iterable.\<close>

fun py_in :: "string \<Rightarrow> pyval \<Rightarrow> error + bool" where
  "py_in s (PList xs) = Inr (PStr s \<in> set xs)"
| "py_in s (PStr t) = Inr (is_substring s t)"
| "py_in s (PDict d) = Inr (s \<in> fst ` set d)"
| "py_in s _ = Inl TypeError"

text \<open>\<^verbatim>\<open>_safe_float\<close> (inference.py, 35-39): only \<^verbatim>\<open>TypeError\<close> and \<^verbatim>\<open>ValueError\<close>
  are caught.\<close>

definition safe_float :: "pyval \<Rightarrow> pyval \<Rightarrow> error + pyval" where
  "safe_float v dflt =
     (case py_float v of
        Inr f \<Rightarrow> Inr (PFloat f)
      | Inl TypeError \<Rightarrow> Inr dflt
      | Inl ValueError \<Rightarrow> Inr dflt
      | Inl e \<Rightarrow> Inl e)"

section \<open>Feature encoder\<close>

text \<open>
  The frozen collaborators of the pipeline: the renderer of \<^verbatim>\<open>str\<close>, the vocabulary of
  the symptom encoder (\<^verbatim>\<open>symptom_encoder.classes_\<close>), the columns that the classifier
  declares (\<^verbatim>\<open>model.feature_names_in_\<close>), the decoded risk label, the largest class
  probability, the decoded department label and the attribution values of an encoded
  row, and the default record table \<^verbatim>\<open>ehr_df\<close>.  A one-row table is the list of its
  columns, each a label with its cell, in order; labels may repeat, as in pandas.
\<close>

type_synonym frame = "(string \<times> pyval) list"

datatype shap_values = PerClass "real list list list" | Plain "real list list"

record ehr_table =
  columns :: "string list"
  rows :: "pyval list list"

record env =
  py_repr :: "pyval \<Rightarrow> string"
  symptom_classes :: "string list"
  feature_names_in :: "string list"
  predict_risk :: "frame \<Rightarrow> string"
  max_proba :: "frame \<Rightarrow> pyfloat"
  predict_dept :: "frame \<Rightarrow> string"
  shap_of :: "frame \<Rightarrow> shap_values"
  ehr_df :: ehr_table

text \<open>The first half of \<^verbatim>\<open>preprocess\<close> (inference.py, 43-52): the patient record with its
  fields normalised, and the list of symptoms.\<close>

definition normalise :: "env \<Rightarrow> pydict \<Rightarrow> error + (pydict \<times> string list)" where
  "normalise E patient_input =
     (let symptoms_list = normalize_symptoms (py_repr E) (dict_get patient_input ''Symptoms'' (PList []));
          patient = dict_pop patient_input ''Symptoms'';
          conditions = normalize_conditions (py_repr E)
                         (dict_get patient ''Pre_Existing_Conditions'' (PList []));
          patient = dict_set patient ''Pre_Existing_Conditions''
                      (PStr (case conditions of [] \<Rightarrow> ''None'' | c # _ \<Rightarrow> c))
      in then_do (safe_float (dict_get patient ''Age'' PNone) (PInt 0)) (\<lambda>a.
         then_do (py_int a) (\<lambda>age.
         let patient = dict_set patient ''Age'' (PInt age)
         in then_do (safe_float (dict_get patient ''Blood_Pressure'' PNone) (PInt 0)) (\<lambda>bp.
         let patient = dict_set patient ''Blood_Pressure'' bp
         in then_do (safe_float (dict_get patient ''Heart_Rate'' PNone) (PInt 0)) (\<lambda>hr.
         let patient = dict_set patient ''Heart_Rate'' hr
         in then_do (safe_float (dict_get patient ''Temperature'' PNone) (PInt 0)) (\<lambda>t.
         let patient = dict_set patient ''Temperature'' t
         in Inr (patient, symptoms_list)))))))"

text \<open>The multi-label symptom encoder: one cell per word of the vocabulary, 1 when the
  word is among the symptoms; a symptom outside the vocabulary is ignored.\<close>

definition symptom_transform :: "string list \<Rightarrow> string list \<Rightarrow> frame" where
  "symptom_transform classes symptoms_list =
     map (\<lambda>c. (c, PInt (if c \<in> set symptoms_list then 1 else 0))) classes"

text \<open>
  \<^verbatim>\<open>pd.get_dummies(df, columns=cols, drop_first=True)\<close> on a table of one row.  Every
  column named in \<open>cols\<close> must exist (\<^verbatim>\<open>KeyError\<close>) and its cell must be hashable
  (\<^verbatim>\<open>TypeError\<close>).  A column of one row has one category, which \<^verbatim>\<open>drop_first\<close>
  drops: the encoded columns leave the table and no indicator column comes in.
\<close>

fun unhashable :: "pyval \<Rightarrow> bool" where
  "unhashable (PList xs) = True"
| "unhashable (PDict d) = True"
| "unhashable _ = False"

definition get_dummies :: "frame \<Rightarrow> string list \<Rightarrow> error + frame" where
  "get_dummies df cols =
     (if \<exists>c \<in> set cols. c \<notin> fst ` set df then Inl KeyError
      else if \<exists>cv \<in> set df. fst cv \<in> set cols \<and> unhashable (snd cv) then Inl TypeError
      else Inr (filter (\<lambda>cv. fst cv \<notin> set cols) df))"

text \<open>The loop of lines 68-70: a declared column that the table lacks is added with 0.\<close>

definition pad_missing :: "frame \<Rightarrow> string list \<Rightarrow> frame" where
  "pad_missing df names =
     foldl (\<lambda>df col. if col \<in> fst ` set df then df else df @ [(col, PInt 0)]) df names"

text \<open>\<^verbatim>\<open>df[names]\<close>: for each name in turn, every column that carries this label.\<close>

definition select_columns :: "frame \<Rightarrow> string list \<Rightarrow> frame" where
  "select_columns df names = concat (map (\<lambda>n. filter (\<lambda>cv. fst cv = n) df) names)"

text \<open>The second half of \<^verbatim>\<open>preprocess\<close> (inference.py, 54-72).\<close>

definition encode :: "env \<Rightarrow> pydict \<Rightarrow> string list \<Rightarrow> error + frame" where
  "encode E patient symptoms_list =
     (let df = patient;
          symptoms_encoded = symptom_transform (symptom_classes E) symptoms_list;
          df = df @ symptoms_encoded
      in then_do (get_dummies df [''Gender'', ''Pre_Existing_Conditions'']) (\<lambda>df.
         Inr (select_columns (pad_missing df (feature_names_in E)) (feature_names_in E))))"

definition preprocess :: "env \<Rightarrow> pydict \<Rightarrow> error + frame" where
  "preprocess E patient_input =
     then_do (normalise E patient_input) (\<lambda>(patient, symptoms_list).
       encode E patient symptoms_list)"

section \<open>Department router\<close>

text \<open>\<^verbatim>\<open>recommend_department\<close> (routing.py).  The vital signs are read with
  \<^verbatim>\<open>patient_data[...]\<close> and compared as they are; \<^verbatim>\<open>or\<close> does not look at the
  temperature once the heart rate decides.\<close>

definition vitals_critical :: "pydict \<Rightarrow> error + bool" where
  "vitals_critical patient_data =
     then_do (dict_index patient_data ''Heart_Rate'') (\<lambda>hr.
     then_do (py_gt hr 130) (\<lambda>b.
       if b then Inr True
       else then_do (dict_index patient_data ''Temperature'') (\<lambda>t. py_gt t 103)))"

definition route_by_symptoms :: "pydict \<Rightarrow> error + string" where
  "route_by_symptoms patient_data =
     (let symptoms = dict_get patient_data ''Symptoms'' (PList []);
          conditions = dict_get patient_data ''Pre_Existing_Conditions'' (PList [])
      in then_do (py_in ''Chest Pain'' symptoms) (\<lambda>b.
           if b then Inr ''Cardiology''
           else then_do (py_in ''Shortness of Breath'' symptoms) (\<lambda>b.
             if b then Inr ''Pulmonology''
             else then_do (py_in ''Seizure'' symptoms) (\<lambda>b.
               if b then Inr ''Neurology''
               else then_do (py_in ''Diabetes'' conditions) (\<lambda>b.
                 if b then Inr ''Endocrinology'' else Inr ''General Medicine'')))))"

definition recommend_department :: "pydict \<Rightarrow> string \<Rightarrow> error + string" where
  "recommend_department patient_data predicted_risk =
     then_do (if predicted_risk = ''High'' then vitals_critical patient_data else Inr False) (\<lambda>b.
       if b then Inr ''Emergency'' else route_by_symptoms patient_data)"

section \<open>Priority scorer\<close>

text \<open>
  \<^verbatim>\<open>round(x)\<close> with one argument rounds a float to the nearest integer, a tie to the
  even one; it raises \<^verbatim>\<open>ValueError\<close> on NaN and \<^verbatim>\<open>OverflowError\<close> on an infinity.
\<close>

definition round_half_even :: "real \<Rightarrow> int" where
  "round_half_even x =
     (let f = \<lfloor>x\<rfloor>; d = x - of_int f
      in if d < 1 / 2 then f else if 1 / 2 < d then f + 1 else if even f then f else f + 1)"

fun py_round :: "pyfloat \<Rightarrow> error + int" where
  "py_round (Fin x) = Inr (round_half_even x)"
| "py_round NaN = Inl ValueError"
| "py_round _ = Inl OverflowError"

text \<open>
  The arithmetic of doubles rounds the exact result to the nearest double, a tie to the
  one with the even significand.  The doubles of one binade, from a power of two up to
  the next, are the multiples of the unit in the last place, which is the power of two
  52 places below the binade; under the least normal binade, whose exponent is -1022,
  the unit stays that of this binade.  \<open>pow2 e\<close> is two to the power \<open>e\<close>.
\<close>

definition pow2 :: "int \<Rightarrow> real" where
  "pow2 e = (if 0 \<le> e then 2 ^ nat e else 1 / 2 ^ nat (- e))"

text \<open>The exponent of the binade of a magnitude: counted up by halving from 1, at most
  1024 times, or down by doubling, at most 1022 times.\<close>

fun exp_up :: "nat \<Rightarrow> real \<Rightarrow> int" where
  "exp_up 0 x = 0"
| "exp_up (Suc n) x = (if 2 \<le> x then exp_up n (x / 2) + 1 else 0)"

fun exp_down :: "nat \<Rightarrow> real \<Rightarrow> int" where
  "exp_down 0 x = 0"
| "exp_down (Suc n) x = (if x < 1 then exp_down n (x * 2) - 1 else 0)"

definition double_exponent :: "real \<Rightarrow> int" where
  "double_exponent x = (if 1 \<le> \<bar>x\<bar> then exp_up 1024 \<bar>x\<bar> else exp_down 1022 \<bar>x\<bar>)"

definition nearest_double :: "real \<Rightarrow> real" where
  "nearest_double x =
     (let u = pow2 (double_exponent x - 52) in of_int (round_half_even (x / u)) * u)"

text \<open>The exact result \<open>x\<close> as a float: an infinity from \<open>float_limit\<close> on.\<close>

definition round_double :: "real \<Rightarrow> pyfloat" where
  "round_double x =
     (if float_limit \<le> \<bar>x\<bar> then (if 0 < x then PosInf else NegInf) else Fin (nearest_double x))"

text \<open>The product \<^verbatim>\<open>x * k\<close> of a float and a finite constant.\<close>

fun fmul :: "pyfloat \<Rightarrow> real \<Rightarrow> pyfloat" where
  "fmul (Fin x) k = round_double (x * k)"
| "fmul NaN k = NaN"
| "fmul PosInf k = (if 0 < k then PosInf else if k < 0 then NegInf else NaN)"
| "fmul NegInf k = (if 0 < k then NegInf else if k < 0 then PosInf else NaN)"

text \<open>\<^verbatim>\<open>_calculate_priority_score\<close> (inference.py, 75-78).\<close>

definition base_score :: "string \<Rightarrow> int" where
  "base_score risk_label =
     (case map_of [(''Low'', 25), (''Medium'', 55), (''High'', 80)] risk_label of
        Some b \<Rightarrow> b
      | None \<Rightarrow> 40)"

definition calculate_priority_score :: "string \<Rightarrow> pyfloat \<Rightarrow> error + int" where
  "calculate_priority_score risk_label confidence =
     (case py_round (fmul confidence 20) of
        Inl e \<Rightarrow> Inl e
      | Inr r \<Rightarrow> (let score = base_score risk_label + r in Inr (max 0 (min 100 score))))"

text \<open>The score as the specification words it: the base of the label plus the rounded
  product of the confidence and 20, clamped to the interval from 0 to 100.  The product
  is that of the doubles.\<close>

definition spec_base :: "string \<Rightarrow> int" where
  "spec_base l =
     (if l = ''Low'' then 25 else if l = ''Medium'' then 55 else if l = ''High'' then 80 else 40)"

definition clamp :: "int \<Rightarrow> int \<Rightarrow> int \<Rightarrow> int" where
  "clamp lo hi x = (if x < lo then lo else if hi < x then hi else x)"

definition spec_priority_score :: "string \<Rightarrow> real \<Rightarrow> int" where
  "spec_priority_score l c = clamp 0 100 (spec_base l + round_half_even (nearest_double (c * 20)))"

section \<open>Record summariser\<close>

text \<open>
  A table of historical records has column labels and rows of cells; the labels of a
  table read from CSV are distinct.  \<^verbatim>\<open>row.get(k, default)\<close> finds the cell under a
  label.  The comparison of the identifier column with the integer \<open>patient_id\<close> is
  numeric; a cell that is no number is different from every identifier.
\<close>

record ehr_summary_rec =
  past_visits :: int
  last_risk :: string
  avg_bp :: pyval
  avg_heart_rate :: pyval
  chronic_conditions :: string

definition row_get :: "string list \<Rightarrow> pyval list \<Rightarrow> string \<Rightarrow> pyval \<Rightarrow> pyval" where
  "row_get cols row k dflt = (case map_of (zip cols row) k of None \<Rightarrow> dflt | Some v \<Rightarrow> v)"

fun cell_eq_int :: "pyval \<Rightarrow> int \<Rightarrow> bool" where
  "cell_eq_int (PInt i) n = (i = n)"
| "cell_eq_int (PFloat (Fin x)) n = (x = of_int n)"
| "cell_eq_int (PBool b) n = ((if b then 1 else 0) = n)"
| "cell_eq_int _ n = False"

text \<open>\<^verbatim>\<open>_build_default_ehr_summary\<close> (inference.py, 81-88).\<close>

definition build_default_ehr_summary :: ehr_summary_rec where
  "build_default_ehr_summary =
     \<lparr>past_visits = 0, last_risk = ''Unknown'', avg_bp = PInt 0, avg_heart_rate = PInt 0,
      chronic_conditions = ''None''\<rparr>"

text \<open>\<^verbatim>\<open>_extract_ehr_summary\<close> (inference.py, 91-106).\<close>

definition extract_ehr_summary ::
    "(pyval \<Rightarrow> string) \<Rightarrow> int \<Rightarrow> ehr_table option \<Rightarrow> error + ehr_summary_rec" where
  "extract_ehr_summary rp patient_id source_df =
     (case source_df of
        None \<Rightarrow> Inr build_default_ehr_summary
      | Some df \<Rightarrow>
          if ''Patient_ID'' \<notin> set (columns df) then Inr build_default_ehr_summary
          else
            (let ehr_record =
                   filter (\<lambda>row. cell_eq_int (row_get (columns df) row ''Patient_ID'' PNone) patient_id)
                     (rows df)
             in case ehr_record of
                  [] \<Rightarrow> Inr build_default_ehr_summary
                | row # _ \<Rightarrow>
                    then_do (py_int (py_or (row_get (columns df) row ''Past_Visits'' (PInt 0)) (PInt 0)))
                      (\<lambda>pv.
                    then_do (py_float (py_or (row_get (columns df) row ''Avg_BP'' (PInt 0)) (PInt 0)))
                      (\<lambda>bp.
                    then_do (py_float
                               (py_or (row_get (columns df) row ''Avg_Heart_Rate'' (PInt 0)) (PInt 0)))
                      (\<lambda>hr.
                    Inr \<lparr>past_visits = pv,
                         last_risk =
                           py_str rp (py_or (row_get (columns df) row ''Last_Risk_Level''
                                               (PStr ''Unknown'')) (PStr ''Unknown'')),
                         avg_bp = PFloat bp,
                         avg_heart_rate = PFloat hr,
                         chronic_conditions =
                           py_str rp (py_or (row_get (columns df) row ''Chronic_Conditions''
                                               (PStr ''None'')) (PStr ''None''))\<rparr>)))))"

section \<open>Explanation engine\<close>

text \<open>
  The attribution values are a rectangular array of finite numbers, either one slice per
  class (\<open>PerClass\<close>, three dimensions: classes, rows, features) or a single slice
  (\<open>Plain\<close>: rows, features).  \<^verbatim>\<open>np.mean(np.abs(a), axis=0)\<close> averages the magnitudes
  over the classes.  \<open>PerClass []\<close> is an empty list of slices, which numpy takes as an
  empty array of one dimension; indexing it fails.
\<close>

definition mean_abs_axis0 :: "real list list list \<Rightarrow> real list list" where
  "mean_abs_axis0 cs =
     (case cs of
        [] \<Rightarrow> []
      | c # rest \<Rightarrow>
          map (map (\<lambda>x. x / real (length cs)))
            (foldl (map2 (map2 (+))) (map (map abs) c) (map (map (map abs)) rest)))"

text \<open>\<^verbatim>\<open>dict(pairs)\<close>: a later pair with a key already seen replaces its value.\<close>

definition dict_of :: "('k \<times> 'v) list \<Rightarrow> ('k \<times> 'v) list" where
  "dict_of ps = foldl (\<lambda>d kv. dict_set d (fst kv) (snd kv)) [] ps"

text \<open>\<^verbatim>\<open>Explainer.explain\<close> (explain.py, 9-29).  \<^verbatim>\<open>sorted\<close> with \<^verbatim>\<open>reverse=True\<close> is
  stable: it orders by descending key and keeps pairs of equal key in their order.\<close>

definition explain :: "string list \<Rightarrow> shap_values \<Rightarrow> error + (string \<times> real) list" where
  "explain feature_names shap_vals =
     (let shap_array = (case shap_vals of
                          PerClass cs \<Rightarrow> mean_abs_axis0 cs
                        | Plain rs \<Rightarrow> map (map abs) rs)
      in case shap_array of
           [] \<Rightarrow> Inl IndexError
         | feature_importance # _ \<Rightarrow>
             Inr (dict_of (take 3 (sort_key (\<lambda>x. - snd x) (zip feature_names feature_importance)))))"

section \<open>Pipeline entry point\<close>

record prediction =
  risk_level :: string
  confidence :: pyfloat
  priority_score :: int
  recommended_department :: string
  top_contributors :: "(string \<times> real) list"
  ehr_summary :: ehr_summary_rec

text \<open>\<^verbatim>\<open>round(x, 3)\<close> on a float.\<close>

fun py_round3 :: "pyfloat \<Rightarrow> pyfloat" where
  "py_round3 (Fin x) = Fin (of_int (round_half_even (x * 1000)) / 1000)"
| "py_round3 f = f"

text \<open>The test of lines 125-128 on the vital signs, read with \<^verbatim>\<open>_safe_float\<close>.\<close>

definition safe_vitals_critical :: "pydict \<Rightarrow> error + bool" where
  "safe_vitals_critical patient_input =
     then_do (safe_float (dict_get patient_input ''Heart_Rate'' PNone) (PInt 0)) (\<lambda>hr.
     then_do (py_gt hr 130) (\<lambda>b.
       if b then Inr True
       else then_do (safe_float (dict_get patient_input ''Temperature'' PNone) (PInt 0)) (\<lambda>t.
              py_gt t 103)))"

text \<open>\<^verbatim>\<open>predict_patient\<close> (inference.py, 109-143).  The predictors are total on the
  encoded row; the table of records is the caller's, or \<^verbatim>\<open>ehr_df\<close> when there is none.\<close>

definition predict_patient :: "env \<Rightarrow> pydict \<Rightarrow> ehr_table option \<Rightarrow> error + prediction" where
  "predict_patient E patient_input ehr_source_df =
     then_do (preprocess E patient_input) (\<lambda>processed_df.
     then_do (safe_float (dict_get patient_input ''Patient_ID'' PNone) (PInt 0)) (\<lambda>pidv.
     then_do (py_int pidv) (\<lambda>patient_id.
     let source_df = (case ehr_source_df of None \<Rightarrow> ehr_df E | Some d \<Rightarrow> d)
     in then_do (extract_ehr_summary (py_repr E) patient_id (Some source_df)) (\<lambda>summary.
     let risk_label = predict_risk E processed_df;
         conf = max_proba E processed_df;
         dept_label = predict_dept E processed_df
     in then_do (recommend_department patient_input risk_label) (\<lambda>routed_department.
     then_do (if risk_label = ''High'' then safe_vitals_critical patient_input else Inr False)
       (\<lambda>forced.
     let dept_label = (if forced then ''Emergency''
                       else if dept_label = [] then routed_department else dept_label)
     in then_do (explain (feature_names_in E) (shap_of E processed_df)) (\<lambda>explanation.
     then_do (calculate_priority_score risk_label conf) (\<lambda>score.
     Inr \<lparr>risk_level = risk_label, confidence = py_round3 conf, priority_score = score,
          recommended_department = dept_label, top_contributors = explanation,
          ehr_summary = summary\<rparr>))))))))"

section \<open>The router as the specification words it\<close>

text \<open>The number that a numeric value stands for.\<close>

fun number_value :: "pyval \<Rightarrow> real option" where
  "number_value (PInt i) = Some (of_int i)"
| "number_value (PFloat (Fin x)) = Some x"
| "number_value _ = None"

text \<open>The fixed order of the rule-based router over a risk label, the two vital signs,
  the list of symptoms and the list of conditions.\<close>

definition spec_route :: "string \<Rightarrow> real \<Rightarrow> real \<Rightarrow> string list \<Rightarrow> string list \<Rightarrow> string" where
  "spec_route risk hr temp symptoms conditions =
     (if risk = ''High'' \<and> (130 < hr \<or> 103 < temp) then ''Emergency''
      else if ''Chest Pain'' \<in> set symptoms then ''Cardiology''
      else if ''Shortness of Breath'' \<in> set symptoms then ''Pulmonology''
      else if ''Seizure'' \<in> set symptoms then ''Neurology''
      else if ''Diabetes'' \<in> set conditions then ''Endocrinology''
      else ''General Medicine'')"

section \<open>The final department as the specification words it\<close>

text \<open>The field \<open>k\<close> of the raw input, read as a number with 0 for a value that is
  none, exceeds \<open>c\<close>.\<close>

definition reads_above :: "pydict \<Rightarrow> string \<Rightarrow> real \<Rightarrow> bool" where
  "reads_above patient_input k c =
     (case safe_float (dict_get patient_input k PNone) (PInt 0) of
        Inl e \<Rightarrow> False
      | Inr v \<Rightarrow> (case py_gt v c of Inl e \<Rightarrow> False | Inr b \<Rightarrow> b))"

text \<open>The three tiers: the safety override, the learned label when it is not empty, the
  rule-based router.\<close>

definition spec_department :: "string \<Rightarrow> bool \<Rightarrow> string \<Rightarrow> string \<Rightarrow> string" where
  "spec_department risk critical learned routed =
     (if risk = ''High'' \<and> critical then ''Emergency''
      else if learned \<noteq> [] then learned
      else routed)"

section \<open>An environment to run the pipeline\<close>

text \<open>
  A small set of collaborators for running the pipeline on concrete inputs: three
  symptoms, eight declared columns, a risk model that answers High when the encoded
  heart rate is above 120, a department model that always answers Cardiology, attribution
  values for two classes, and a table with one historical record.
\<close>

definition sample_env :: env where
  "sample_env =
     \<lparr>py_repr = (\<lambda>v. ''?''),
      symptom_classes = [''Chest Pain'', ''Fever'', ''Seizure''],
      feature_names_in = [''Age'', ''Blood_Pressure'', ''Heart_Rate'', ''Temperature'',
                          ''Chest Pain'', ''Fever'', ''Seizure'', ''Gender_Male''],
      predict_risk = (\<lambda>df. case dict_get df ''Heart_Rate'' PNone of
                               PFloat f \<Rightarrow> if float_gt f 120 then ''High'' else ''Low''
                             | _ \<Rightarrow> ''Low''),
      max_proba = (\<lambda>df. Fin (3 / 4)),
      predict_dept = (\<lambda>df. ''Cardiology''),
      shap_of = (\<lambda>df. PerClass [[[1 / 10, - 1 / 5, 2 / 5, 0, 1 / 5, 0, 0, 0]],
                                  [[- 1 / 10, 1 / 5, - 2 / 5, 0, - 1 / 5, 0, 0, 0]]]),
      ehr_df = \<lparr>columns = [''Patient_ID'', ''Past_Visits'', ''Last_Risk_Level'', ''Avg_BP'',
                           ''Avg_Heart_Rate'', ''Chronic_Conditions''],
                rows = [[PInt 7, PInt 3, PStr ''Low'', PFloat (Fin 120), PFloat (Fin 72),
                         PStr ''Asthma'']]\<rparr>\<rparr>"

text \<open>The same collaborators with a risk model that answers High on every row.\<close>

definition alert_env :: env where
  "alert_env = sample_env\<lparr>predict_risk := (\<lambda>df. ''High'')\<rparr>"

section \<open>The normalised numbers as the specification words them\<close>




section \<open>The record summary as the specification words it\<close>






section \<open>The importance of a feature as the specification words it\<close>




section \<open>Properties\<close>

lemma round_half_even_mono: "x \<le> y \<Longrightarrow> round_half_even x \<le> round_half_even y"
proof -
  assume xy: "x \<le> y"
  have fl: "\<lfloor>x\<rfloor> \<le> \<lfloor>y\<rfloor>" using xy by (rule floor_mono)
  show ?thesis
  proof (cases "\<lfloor>x\<rfloor> = \<lfloor>y\<rfloor>")
    case True
    then have "x - of_int \<lfloor>x\<rfloor> \<le> y - of_int \<lfloor>y\<rfloor>" using xy by simp
    then show ?thesis using True by (auto simp: round_half_even_def Let_def)
  next
    case False
    then have "\<lfloor>x\<rfloor> + 1 \<le> \<lfloor>y\<rfloor>" using fl by linarith
    moreover have "round_half_even x \<le> \<lfloor>x\<rfloor> + 1" by (auto simp: round_half_even_def Let_def)
    moreover have "\<lfloor>y\<rfloor> \<le> round_half_even y" by (auto simp: round_half_even_def Let_def)
    ultimately show ?thesis by linarith
  qed
qed

lemma base_score_spec: "base_score l = spec_base l"
  by (simp add: base_score_def spec_base_def)

subsection \<open>Rounding to the nearest double\<close>

lemma pow2_powi: "pow2 e = 2 powi e"
  by (simp add: pow2_def power_int_def inverse_eq_divide power_one_over)

lemma pow2_pos: "0 < pow2 e"
  by (simp add: pow2_def)

lemma pow2_add: "pow2 (a + b) = pow2 a * pow2 b"
  by (simp add: pow2_powi power_int_add)

lemma pow2_mono: "a \<le> b \<Longrightarrow> pow2 a \<le> pow2 b"
  by (simp add: pow2_powi power_int_increasing)

lemma pow2_succ: "pow2 (e + 1) = 2 * pow2 e"
  by (simp add: pow2_add) (simp add: pow2_def)

lemma pow2_pred: "pow2 e = 2 * pow2 (e - 1)"
  using pow2_succ [of "e - 1"] by simp

lemma exp_up_numeral:
  "exp_up (numeral k) x = (if 2 \<le> x then exp_up (pred_numeral k) (x / 2) + 1 else 0)"
  by (simp add: numeral_eq_Suc)

lemma exp_down_numeral:
  "exp_down (numeral k) x = (if x < 1 then exp_down (pred_numeral k) (x * 2) - 1 else 0)"
  by (simp add: numeral_eq_Suc)

lemma exp_up_bounds:
  "1 \<le> x \<Longrightarrow>
   pow2 (exp_up n x) \<le> x \<and> 0 \<le> exp_up n x \<and> (x < 2 ^ n \<longrightarrow> x < pow2 (exp_up n x + 1))"
proof (induction n arbitrary: x)
  case 0
  then show ?case by (simp add: pow2_def)
next
  case (Suc n)
  show ?case
  proof (cases "2 \<le> x")
    case True
    then have h: "1 \<le> x / 2" by simp
    note ih = Suc.IH [OF h]
    from ih have a: "pow2 (exp_up n (x / 2) + 1) \<le> x"
      by (simp add: pow2_succ)
    from ih have b: "0 \<le> exp_up n (x / 2) + 1" by simp
    have c: "x < 2 ^ Suc n \<longrightarrow> x < pow2 (exp_up n (x / 2) + 1 + 1)"
    proof
      assume "x < 2 ^ Suc n"
      then have "x / 2 < 2 ^ n" by simp
      with ih have "x / 2 < pow2 (exp_up n (x / 2) + 1)" by simp
      moreover have "pow2 (exp_up n (x / 2) + 1 + 1) = 2 * pow2 (exp_up n (x / 2) + 1)"
        by (rule pow2_succ)
      ultimately show "x < pow2 (exp_up n (x / 2) + 1 + 1)" by linarith
    qed
    from True a b c show ?thesis by simp
  next
    case False
    with Suc.prems show ?thesis by (simp add: pow2_def)
  qed
qed

lemma exp_down_bounds:
  "x < 2 \<Longrightarrow>
   x < pow2 (exp_down n x + 1) \<and> - int n \<le> exp_down n x
   \<and> (- int n < exp_down n x \<longrightarrow> pow2 (exp_down n x) \<le> x)"
proof (induction n arbitrary: x)
  case 0
  then show ?case by (simp add: pow2_def)
next
  case (Suc n)
  show ?case
  proof (cases "x < 1")
    case True
    then have h: "x * 2 < 2" by simp
    note ih = Suc.IH [OF h]
    from ih have a: "x < pow2 (exp_down n (x * 2) - 1 + 1)"
      using pow2_succ [of "exp_down n (x * 2)"] by simp
    from ih have b: "- int (Suc n) \<le> exp_down n (x * 2) - 1" by simp
    have c: "- int (Suc n) < exp_down n (x * 2) - 1 \<longrightarrow> pow2 (exp_down n (x * 2) - 1) \<le> x"
    proof
      assume "- int (Suc n) < exp_down n (x * 2) - 1"
      then have "- int n < exp_down n (x * 2)" by simp
      with ih have "pow2 (exp_down n (x * 2)) \<le> x * 2" by simp
      then show "pow2 (exp_down n (x * 2) - 1) \<le> x"
        using pow2_pred [of "exp_down n (x * 2)"] by simp
    qed
    from True a b c show ?thesis by simp
  next
    case False
    with Suc.prems show ?thesis by (simp add: pow2_def)
  qed
qed

lemma double_exponent_bounds:
  assumes "\<bar>x\<bar> < 2 ^ 1024"
  shows "\<bar>x\<bar> < pow2 (double_exponent x + 1)"
    and "- 1022 \<le> double_exponent x"
    and "- 1022 < double_exponent x \<Longrightarrow> pow2 (double_exponent x) \<le> \<bar>x\<bar>"
proof -
  show "\<bar>x\<bar> < pow2 (double_exponent x + 1)"
  proof (cases "1 \<le> \<bar>x\<bar>")
    case True
    from exp_up_bounds [OF True, of 1024] assms True show ?thesis
      by (simp add: double_exponent_def)
  next
    case False
    then have "\<bar>x\<bar> < 2" by simp
    from exp_down_bounds [OF this, of 1022] False show ?thesis
      by (simp add: double_exponent_def)
  qed
  show "- 1022 \<le> double_exponent x"
  proof (cases "1 \<le> \<bar>x\<bar>")
    case True
    from exp_up_bounds [OF True, of 1024] True show ?thesis
      by (simp add: double_exponent_def)
  next
    case False
    then have "\<bar>x\<bar> < 2" by simp
    from exp_down_bounds [OF this, of 1022] False show ?thesis
      by (simp add: double_exponent_def)
  qed
  show "pow2 (double_exponent x) \<le> \<bar>x\<bar>" if "- 1022 < double_exponent x"
  proof (cases "1 \<le> \<bar>x\<bar>")
    case True
    from exp_up_bounds [OF True, of 1024] True show ?thesis
      by (simp add: double_exponent_def)
  next
    case False
    then have "\<bar>x\<bar> < 2" by simp
    from exp_down_bounds [OF this, of 1022] False that show ?thesis
      by (simp add: double_exponent_def)
  qed
qed

lemma round_half_even_int: "round_half_even (of_int n) = n"
  by (simp add: round_half_even_def)

lemma round_half_even_le: "x \<le> of_int n \<Longrightarrow> round_half_even x \<le> n"
  using round_half_even_mono [of x "of_int n"] by (simp add: round_half_even_int)

lemma round_half_even_ge: "of_int n \<le> x \<Longrightarrow> n \<le> round_half_even x"
  using round_half_even_mono [of "of_int n" x] by (simp add: round_half_even_int)

lemma round_half_even_minus: "round_half_even (- x) = - round_half_even x"
proof (cases "x = of_int \<lfloor>x\<rfloor>")
  case True
  then obtain n where "x = of_int n" ..
  then have "round_half_even (- x) = round_half_even (of_int (- n))" by simp
  also have "\<dots> = - n" by (rule round_half_even_int)
  finally show ?thesis using \<open>x = of_int n\<close> by (simp add: round_half_even_int)
next
  case False
  then have f: "\<lfloor>- x\<rfloor> = - \<lfloor>x\<rfloor> - 1"
    by (simp add: floor_minus ceiling_altdef)
  show ?thesis
    unfolding round_half_even_def Let_def f by auto
qed

lemma nearest_double_upper:
  assumes "0 \<le> x" and "x < 2 ^ 1024"
  shows "nearest_double x \<le> pow2 (double_exponent x + 1)"
proof -
  let ?e = "double_exponent x"
  let ?u = "pow2 (?e - 52)"
  have u: "0 < ?u" by (rule pow2_pos)
  have "?e + 1 = 53 + (?e - 52)" by simp
  then have "pow2 (?e + 1) = pow2 (53 + (?e - 52))" by (rule arg_cong)
  also have "\<dots> = pow2 53 * ?u" by (rule pow2_add)
  also have "pow2 53 = of_int (2 ^ 53)" by (simp add: pow2_def)
  finally have p: "pow2 (?e + 1) = of_int (2 ^ 53) * ?u" .
  from assms have "\<bar>x\<bar> < 2 ^ 1024" by simp
  from double_exponent_bounds(1) [OF this] assms have "x \<le> of_int (2 ^ 53) * ?u"
    by (simp add: p)
  with u have "x / ?u \<le> of_int (2 ^ 53)" by (simp add: pos_divide_le_eq)
  then have "round_half_even (x / ?u) \<le> 2 ^ 53" by (rule round_half_even_le)
  then have "(of_int (round_half_even (x / ?u)) :: real) \<le> of_int (2 ^ 53)"
    by (simp only: of_int_le_iff)
  with u have "of_int (round_half_even (x / ?u)) * ?u \<le> of_int (2 ^ 53) * ?u"
    by (simp only: mult_le_cancel_right_pos)
  then show ?thesis by (simp only: nearest_double_def Let_def p)
qed

lemma nearest_double_lower:
  assumes "0 \<le> x" and "x < 2 ^ 1024" and "- 1022 < double_exponent x"
  shows "pow2 (double_exponent x) \<le> nearest_double x"
proof -
  let ?e = "double_exponent x"
  let ?u = "pow2 (?e - 52)"
  have u: "0 < ?u" by (rule pow2_pos)
  have "?e = 52 + (?e - 52)" by simp
  then have "pow2 ?e = pow2 (52 + (?e - 52))" by (rule arg_cong)
  also have "\<dots> = pow2 52 * ?u" by (rule pow2_add)
  also have "pow2 52 = of_int (2 ^ 52)" by (simp add: pow2_def)
  finally have p: "pow2 ?e = of_int (2 ^ 52) * ?u" .
  from assms have "\<bar>x\<bar> < 2 ^ 1024" by simp
  from double_exponent_bounds(3) [OF this assms(3)] assms have "of_int (2 ^ 52) * ?u \<le> x"
    by (simp add: p)
  with u have "of_int (2 ^ 52) \<le> x / ?u" by (simp add: pos_le_divide_eq)
  then have "2 ^ 52 \<le> round_half_even (x / ?u)" by (rule round_half_even_ge)
  then have "(of_int (2 ^ 52) :: real) \<le> of_int (round_half_even (x / ?u))"
    by (simp only: of_int_le_iff)
  with u have "of_int (2 ^ 52) * ?u \<le> of_int (round_half_even (x / ?u)) * ?u"
    by (simp only: mult_le_cancel_right_pos)
  then show ?thesis by (simp only: nearest_double_def Let_def p)
qed

lemma nearest_double_nonneg: "0 \<le> x \<Longrightarrow> 0 \<le> nearest_double x"
proof -
  assume x: "0 \<le> x"
  have u: "0 < pow2 (double_exponent x - 52)" by (rule pow2_pos)
  with x have "of_int 0 \<le> x / pow2 (double_exponent x - 52)" by simp
  then have "0 \<le> round_half_even (x / pow2 (double_exponent x - 52))"
    by (rule round_half_even_ge)
  with u show ?thesis by (simp add: nearest_double_def Let_def)
qed

lemma nearest_double_minus: "nearest_double (- x) = - nearest_double x"
  by (simp add: nearest_double_def double_exponent_def Let_def round_half_even_minus)

lemma nearest_double_mono_nonneg:
  assumes x: "0 \<le> x" and xy: "x \<le> y" and y: "y < 2 ^ 1024"
  shows "nearest_double x \<le> nearest_double y"
proof -
  from x xy y have x': "x < 2 ^ 1024" and y0: "0 \<le> y" by simp_all
  from x x' have ax: "\<bar>x\<bar> < 2 ^ 1024" by simp
  from y0 y have ay: "\<bar>y\<bar> < 2 ^ 1024" by simp
  consider (eq) "double_exponent x = double_exponent y"
    | (lt) "double_exponent x < double_exponent y"
    | (gt) "double_exponent y < double_exponent x"
    by linarith
  then show ?thesis
  proof cases
    case eq
    have u: "0 < pow2 (double_exponent y - 52)" by (rule pow2_pos)
    with xy have "x / pow2 (double_exponent y - 52) \<le> y / pow2 (double_exponent y - 52)"
      by (simp add: divide_right_mono)
    then have "round_half_even (x / pow2 (double_exponent y - 52))
               \<le> round_half_even (y / pow2 (double_exponent y - 52))"
      by (rule round_half_even_mono)
    with u show ?thesis by (simp add: nearest_double_def Let_def eq)
  next
    case lt
    with double_exponent_bounds(2) [OF ax] have "- 1022 < double_exponent y" by simp
    from nearest_double_lower [OF y0 y this]
    have "pow2 (double_exponent y) \<le> nearest_double y" .
    moreover from lt have "pow2 (double_exponent x + 1) \<le> pow2 (double_exponent y)"
      by (intro pow2_mono) simp
    moreover note nearest_double_upper [OF x x']
    ultimately show ?thesis by linarith
  next
    case gt
    with double_exponent_bounds(2) [OF ay] have "- 1022 < double_exponent x" by simp
    from double_exponent_bounds(3) [OF ax this] x have "pow2 (double_exponent x) \<le> x" by simp
    moreover from gt have "pow2 (double_exponent y + 1) \<le> pow2 (double_exponent x)"
      by (intro pow2_mono) simp
    moreover from double_exponent_bounds(1) [OF ay] y0 have "y < pow2 (double_exponent y + 1)"
      by simp
    ultimately have "y < x" by linarith
    with xy show ?thesis by simp
  qed
qed

lemma nearest_double_mono:
  assumes xy: "x \<le> y" and x: "\<bar>x\<bar> < 2 ^ 1024" and y: "\<bar>y\<bar> < 2 ^ 1024"
  shows "nearest_double x \<le> nearest_double y"
proof -
  consider (pos) "0 \<le> x" | (neg) "y \<le> 0" | (mid) "x < 0" "0 < y" by linarith
  then show ?thesis
  proof cases
    case pos
    from pos xy y show ?thesis by (intro nearest_double_mono_nonneg) simp_all
  next
    case neg
    with xy x have "nearest_double (- y) \<le> nearest_double (- x)"
      by (intro nearest_double_mono_nonneg) simp_all
    then show ?thesis by (simp add: nearest_double_minus)
  next
    case mid
    from mid(1) have "0 \<le> nearest_double (- x)" by (intro nearest_double_nonneg) simp
    then have "nearest_double x \<le> 0" by (simp add: nearest_double_minus)
    moreover from mid(2) have "0 \<le> nearest_double y" by (intro nearest_double_nonneg) simp
    ultimately show ?thesis by linarith
  qed
qed

lemma float_limit_lt: "float_limit < 2 ^ 1024"
  by (simp add: float_limit_def)

lemma fmul_finite: "\<bar>c * k\<bar> < float_limit \<Longrightarrow> fmul (Fin c) k = Fin (nearest_double (c * k))"
  by (simp add: round_double_def)

text \<open>
  C4.  For every risk label and every confidence whose twentyfold a double can hold, the
  priority score is defined and equals the base of the label (25 for Low, 55 for Medium,
  80 for High, 40 otherwise) plus the rounded product of the confidence and 20, the
  product being the double nearest to it, clamped to the interval from 0 to 100; so it
  lies between 0 and 100, and for a fixed label it does not decrease when the confidence
  grows.
\<close>

theorem priority_score_formula_bounds_mono:
  assumes c: "\<bar>c * 20\<bar> < float_limit" and c': "\<bar>c' * 20\<bar> < float_limit"
  shows "calculate_priority_score l (Fin c) = Inr (spec_priority_score l c)
   \<and> 0 \<le> spec_priority_score l c \<and> spec_priority_score l c \<le> 100
   \<and> (c \<le> c' \<longrightarrow> (\<exists>s s'. calculate_priority_score l (Fin c) = Inr s
                          \<and> calculate_priority_score l (Fin c') = Inr s' \<and> s \<le> s'))"
proof -
  have eq: "calculate_priority_score l (Fin d) = Inr (spec_priority_score l d)"
    if "\<bar>d * 20\<bar> < float_limit" for d
    using fmul_finite [OF that]
    by (simp add: calculate_priority_score_def spec_priority_score_def clamp_def
        base_score_spec Let_def del: fmul.simps)
  have bounds: "0 \<le> spec_priority_score l c \<and> spec_priority_score l c \<le> 100"
    by (simp add: spec_priority_score_def clamp_def)
  have mono: "spec_priority_score l c \<le> spec_priority_score l c'" if "c \<le> c'"
  proof -
    from c float_limit_lt have a: "\<bar>c * 20\<bar> < 2 ^ 1024" by linarith
    from c' float_limit_lt have b: "\<bar>c' * 20\<bar> < 2 ^ 1024" by linarith
    from that have "c * 20 \<le> c' * 20" by simp
    then have "nearest_double (c * 20) \<le> nearest_double (c' * 20)"
      using a b by (rule nearest_double_mono)
    then have "round_half_even (nearest_double (c * 20))
               \<le> round_half_even (nearest_double (c' * 20))"
      by (rule round_half_even_mono)
    then show ?thesis by (simp add: spec_priority_score_def clamp_def)
  qed
  from eq [OF c] eq [OF c'] bounds mono show ?thesis by blast
qed

lemma nearest_0475: "nearest_double (4278419646001971 / 2 ^ 53 * 20) = 19 / 2"
  by (simp add: nearest_double_def double_exponent_def exp_up_numeral pow2_def
      round_half_even_def Let_def)

lemma nearest_0025: "nearest_double (3602879701896397 / 2 ^ 57 * 20) = 1 / 2"
  by (simp add: nearest_double_def double_exponent_def exp_down_numeral pow2_def
      round_half_even_def Let_def)

lemma nearest_20: "nearest_double (1 * 20) = 20"
  by (simp add: nearest_double_def double_exponent_def exp_up_numeral pow2_def
      round_half_even_def Let_def)

text \<open>The doubles nearest to 0.475 and to 0.025: their exact products with 20 lie just
  below 9.5 and just above 0.5, the doubles nearest to these products are 9.5 and 0.5,
  and rounding these to the even neighbour gives 10 and 0.\<close>

theorem priority_score_witness:
  "calculate_priority_score ''High'' (Fin (4278419646001971 / 2 ^ 53)) = Inr 90
   \<and> calculate_priority_score ''Other'' (Fin (3602879701896397 / 2 ^ 57)) = Inr 40
   \<and> calculate_priority_score ''High'' (Fin 1) = Inr 100
   \<and> (4278419646001971 / 2 ^ 53 :: real) \<le> 1"
proof -
  have h1: "\<bar>4278419646001971 / 2 ^ 53 * 20 :: real\<bar> < float_limit"
    by (simp add: float_limit_def)
  have h2: "\<bar>3602879701896397 / 2 ^ 57 * 20 :: real\<bar> < float_limit"
    by (simp add: float_limit_def)
  have h3: "\<bar>1 * 20 :: real\<bar> < float_limit"
    by (simp add: float_limit_def)
  have a: "spec_priority_score ''High'' (4278419646001971 / 2 ^ 53) = 90"
    unfolding spec_priority_score_def nearest_0475
    by (simp add: spec_base_def clamp_def round_half_even_def)
  have b: "spec_priority_score ''Other'' (3602879701896397 / 2 ^ 57) = 40"
    unfolding spec_priority_score_def nearest_0025
    by (simp add: spec_base_def clamp_def round_half_even_def)
  have d: "spec_priority_score ''High'' 1 = 100"
    unfolding spec_priority_score_def nearest_20
    by (simp add: spec_base_def clamp_def round_half_even_def)
  note t1 = priority_score_formula_bounds_mono [OF h1 h3, of "''High''", THEN conjunct1, unfolded a]
  note t2 = priority_score_formula_bounds_mono [OF h2 h3, of "''Other''", THEN conjunct1, unfolded b]
  note t3 = priority_score_formula_bounds_mono [OF h3 h3, of "''High''", THEN conjunct1, unfolded d]
  from t1 t2 t3 show ?thesis by simp
qed

lemma split_on_no_sep: "c \<notin> set s \<Longrightarrow> split_on c s = [s]"
  by (induction s) auto

lemma split_on_append_sep: "c \<notin> set s \<Longrightarrow> split_on c (s @ c # t) = s # split_on c t"
  by (induction s) auto

lemma split_on_comma_join:
  "xs \<noteq> [] \<Longrightarrow> \<forall>s \<in> set xs. CHR '','' \<notin> set s \<Longrightarrow> split_on CHR '','' (comma_join xs) = xs"
  by (induction xs rule: comma_join.induct) (auto simp: split_on_no_sep split_on_append_sep)

lemma strip_Nil: "strip [] = []"
  by (simp add: strip_def)

lemma normalize_str_join:
  assumes "\<forall>s \<in> set items. CHR '','' \<notin> set s"
  shows "map strip (filter (\<lambda>item. strip item \<noteq> []) (split_on CHR '','' (comma_join items)))
         = filter (\<lambda>s. s \<noteq> []) (map strip items)"
proof (cases "items = []")
  case True
  then show ?thesis by (simp add: strip_Nil)
next
  case False
  then have "split_on CHR '','' (comma_join items) = items"
    using assms by (rule split_on_comma_join)
  then show ?thesis by (simp add: filter_map comp_def)
qed

lemma normalize_list_strs:
  "map (\<lambda>item. strip (py_str rp item)) (filter (\<lambda>item. strip (py_str rp item) \<noteq> []) (map PStr items))
   = filter (\<lambda>s. s \<noteq> []) (map strip items)"
  by (simp add: filter_map comp_def)

text \<open>
  C7 (amended).  For every list of symptom strings none of which contains a comma,
  normalising the list and normalising the comma-joined string of the same symptoms give
  the same list, namely the trimmed entries with the empty ones dropped; the same holds
  for the pre-existing conditions.
\<close>

theorem normalize_joined_eq_list:
  assumes "\<forall>s \<in> set items. CHR '','' \<notin> set s"
  shows "normalize_symptoms rp (PStr (comma_join items)) = normalize_symptoms rp (PList (map PStr items))
       \<and> normalize_conditions rp (PStr (comma_join items)) = normalize_conditions rp (PList (map PStr items))
       \<and> normalize_symptoms rp (PList (map PStr items)) = filter (\<lambda>s. s \<noteq> []) (map strip items)"
  using normalize_str_join [OF assms] by (simp add: normalize_list_strs)

theorem normalize_joined_eq_list_witness:
  "normalize_symptoms (\<lambda>v. []) (PStr (comma_join [''Chest Pain'', '' Fever '', ''  '']))
       = [''Chest Pain'', ''Fever'']
   \<and> normalize_symptoms (\<lambda>v. []) (PList (map PStr [''Chest Pain'', '' Fever '', ''  '']))
       = [''Chest Pain'', ''Fever'']"
proof -
  have h: "\<forall>s \<in> set [''Chest Pain'', '' Fever '', ''  '']. CHR '','' \<notin> set s" by simp
  have e: "filter (\<lambda>s. s \<noteq> []) (map strip [''Chest Pain'', '' Fever '', ''  '']) = [''Chest Pain'', ''Fever'']"
    by (simp add: strip_def py_isspace_def)
  show ?thesis using normalize_joined_eq_list [OF h, of "\<lambda>v. []"] e by simp
qed

text \<open>A symptom that contains a comma is one entry of the list and two of the string.\<close>

theorem normalize_joined_counterexample:
  "normalize_symptoms (\<lambda>v. []) (PStr (comma_join [''Pain, chest'']))
   \<noteq> normalize_symptoms (\<lambda>v. []) (PList (map PStr [''Pain, chest'']))"
  by (simp add: strip_def py_isspace_def)

lemma then_do_Inr: "then_do (Inr x) f = f x"
  by (simp add: then_do_def)

lemma then_do_Inl: "then_do (Inl e) f = Inl e"
  by (simp add: then_do_def)

lemma py_gt_number: "number_value v = Some x \<Longrightarrow> py_gt v k = Inr (k < x)"
  by (induction v rule: number_value.induct) auto

lemma py_in_strs: "py_in s (PList (map PStr xs)) = Inr (s \<in> set xs)"
  by auto

lemma vitals_critical_numbers:
  assumes "map_of d ''Heart_Rate'' = Some hrv" and "number_value hrv = Some hr"
    and "map_of d ''Temperature'' = Some tv" and "number_value tv = Some temp"
  shows "vitals_critical d = Inr (130 < hr \<or> 103 < temp)"
  using assms by (simp add: vitals_critical_def dict_index_def then_do_Inr py_gt_number)

lemma route_by_symptoms_lists:
  assumes "dict_get d ''Symptoms'' (PList []) = PList (map PStr symptoms)"
    and "dict_get d ''Pre_Existing_Conditions'' (PList []) = PList (map PStr conditions)"
  shows "route_by_symptoms d = Inr (spec_route ''Low'' 0 0 symptoms conditions)"
  using assms by (simp add: route_by_symptoms_def then_do_Inr py_in_strs spec_route_def del: py_in.simps)

text \<open>
  C5.  On a record whose heart rate and temperature are numbers and whose symptoms and
  conditions are lists of strings, the rule-based router returns the first match of the
  fixed order: High risk with heart rate above 130 or temperature above 103 gives
  Emergency; else Chest Pain among the symptoms gives Cardiology; else Shortness of Breath
  gives Pulmonology; else Seizure gives Neurology; else Diabetes among the conditions
  gives Endocrinology; else General Medicine.  For risk Medium, symptoms Chest Pain, heart
  rate 90 and temperature 98.6 it returns Cardiology.
\<close>

theorem router_fixed_order:
  assumes "map_of d ''Heart_Rate'' = Some hrv" and "number_value hrv = Some hr"
    and "map_of d ''Temperature'' = Some tv" and "number_value tv = Some temp"
    and "dict_get d ''Symptoms'' (PList []) = PList (map PStr symptoms)"
    and "dict_get d ''Pre_Existing_Conditions'' (PList []) = PList (map PStr conditions)"
  shows "recommend_department d risk = Inr (spec_route risk hr temp symptoms conditions)"
proof -
  have v: "vitals_critical d = Inr (130 < hr \<or> 103 < temp)"
    using assms(1-4) by (rule vitals_critical_numbers)
  have r: "route_by_symptoms d = Inr (spec_route ''Low'' 0 0 symptoms conditions)"
    using assms(5,6) by (rule route_by_symptoms_lists)
  show ?thesis
    by (simp add: recommend_department_def v r then_do_Inr spec_route_def)
qed

theorem router_fixed_order_witness:
  "recommend_department
     [(''Heart_Rate'', PInt 90), (''Temperature'', PFloat (Fin (986 / 10))),
      (''Symptoms'', PList [PStr ''Chest Pain''])] ''Medium'' = Inr ''Cardiology''"
proof -
  let ?d = "[(''Heart_Rate'', PInt 90), (''Temperature'', PFloat (Fin (986 / 10))),
      (''Symptoms'', PList [PStr ''Chest Pain''])]"
  have "recommend_department ?d ''Medium''
        = Inr (spec_route ''Medium'' 90 (986 / 10) [''Chest Pain''] [])"
    by (rule router_fixed_order [where hrv = "PInt 90" and tv = "PFloat (Fin (986 / 10))"])
       (simp_all add: dict_get_def)
  then show ?thesis by (simp add: spec_route_def)
qed



subsection \<open>Runs of the sample environment\<close>

lemma million_lt_limit: "(1000000::real) < float_limit"
  by (simp add: float_limit_def)

lemma py_float_small_int: "\<bar>i\<bar> < 1000000 \<Longrightarrow> py_float (PInt i) = Inr (Fin (of_int i))"
proof -
  assume a: "\<bar>i\<bar> < 1000000"
  then have "\<bar>of_int i :: real\<bar> < 1000000" by linarith
  with million_lt_limit have "\<bar>of_int i :: real\<bar> < float_limit" by linarith
  then show ?thesis by simp
qed

lemma safe_float_140: "safe_float (PInt 140) d = Inr (PFloat (Fin 140))"
  using py_float_small_int [of 140] by (simp add: safe_float_def del: py_float.simps)

lemma safe_float_99: "safe_float (PInt 99) d = Inr (PFloat (Fin 99))"
  using py_float_small_int [of 99] by (simp add: safe_float_def del: py_float.simps)

lemma safe_float_None: "safe_float PNone d = Inr d"
  by (simp add: safe_float_def)

lemma sample_env_fields:
  "py_repr sample_env = (\<lambda>v. ''?'')"
  "symptom_classes sample_env = [''Chest Pain'', ''Fever'', ''Seizure'']"
  "feature_names_in sample_env = [''Age'', ''Blood_Pressure'', ''Heart_Rate'', ''Temperature'',
                          ''Chest Pain'', ''Fever'', ''Seizure'', ''Gender_Male'']"
  "max_proba sample_env df = Fin (3 / 4)"
  "predict_dept sample_env df = ''Cardiology''"
  "shap_of sample_env df = PerClass [[[1 / 10, - 1 / 5, 2 / 5, 0, 1 / 5, 0, 0, 0]],
                                  [[- 1 / 10, 1 / 5, - 2 / 5, 0, - 1 / 5, 0, 0, 0]]]"
  "ehr_df sample_env = \<lparr>columns = [''Patient_ID'', ''Past_Visits'', ''Last_Risk_Level'', ''Avg_BP'',
                           ''Avg_Heart_Rate'', ''Chronic_Conditions''],
                rows = [[PInt 7, PInt 3, PStr ''Low'', PFloat (Fin 120), PFloat (Fin 72),
                         PStr ''Asthma'']]\<rparr>"
  by (simp_all add: sample_env_def)

lemma sample_predict_risk:
  "predict_risk sample_env df =
     (case dict_get df ''Heart_Rate'' PNone of
        PFloat f \<Rightarrow> if float_gt f 120 then ''High'' else ''Low''
      | _ \<Rightarrow> ''Low'')"
  by (simp add: sample_env_def)

lemma sample_normalise_140:
  "normalise sample_env [(''Heart_Rate'', PInt 140), (''Temperature'', PInt 99), (''Gender'', PStr ''Female'')]
   = Inr ([(''Heart_Rate'', PFloat (Fin 140)), (''Temperature'', PFloat (Fin 99)), (''Gender'', PStr ''Female''),
           (''Pre_Existing_Conditions'', PStr ''None''), (''Age'', PInt 0), (''Blood_Pressure'', PInt 0)], [])"
  by (simp add: normalise_def sample_env_fields dict_get_def dict_pop_def then_do_Inr Let_def
      safe_float_140 safe_float_99 safe_float_None)


lemma sample_symptoms_none:
  "symptom_transform [''Chest Pain'', ''Fever'', ''Seizure''] []
   = [(''Chest Pain'', PInt 0), (''Fever'', PInt 0), (''Seizure'', PInt 0)]"
  by (simp add: symptom_transform_def)

lemma sample_dummies_140:
  "get_dummies [(''Heart_Rate'', PFloat (Fin 140)), (''Temperature'', PFloat (Fin 99)),
                (''Gender'', PStr ''Female''), (''Pre_Existing_Conditions'', PStr ''None''),
                (''Age'', PInt 0), (''Blood_Pressure'', PInt 0),
                (''Chest Pain'', PInt 0), (''Fever'', PInt 0), (''Seizure'', PInt 0)]
               [''Gender'', ''Pre_Existing_Conditions'']
   = Inr [(''Heart_Rate'', PFloat (Fin 140)), (''Temperature'', PFloat (Fin 99)),
          (''Age'', PInt 0), (''Blood_Pressure'', PInt 0),
          (''Chest Pain'', PInt 0), (''Fever'', PInt 0), (''Seizure'', PInt 0)]"
  by (simp add: get_dummies_def)

lemma sample_pad_140:
  "pad_missing [(''Heart_Rate'', PFloat (Fin 140)), (''Temperature'', PFloat (Fin 99)),
          (''Age'', PInt 0), (''Blood_Pressure'', PInt 0),
          (''Chest Pain'', PInt 0), (''Fever'', PInt 0), (''Seizure'', PInt 0)]
       [''Age'', ''Blood_Pressure'', ''Heart_Rate'', ''Temperature'',
        ''Chest Pain'', ''Fever'', ''Seizure'', ''Gender_Male'']
   = [(''Heart_Rate'', PFloat (Fin 140)), (''Temperature'', PFloat (Fin 99)),
          (''Age'', PInt 0), (''Blood_Pressure'', PInt 0),
          (''Chest Pain'', PInt 0), (''Fever'', PInt 0), (''Seizure'', PInt 0),
          (''Gender_Male'', PInt 0)]"
  by (simp add: pad_missing_def)

lemma sample_select_140:
  "select_columns [(''Heart_Rate'', PFloat (Fin 140)), (''Temperature'', PFloat (Fin 99)),
          (''Age'', PInt 0), (''Blood_Pressure'', PInt 0),
          (''Chest Pain'', PInt 0), (''Fever'', PInt 0), (''Seizure'', PInt 0),
          (''Gender_Male'', PInt 0)]
       [''Age'', ''Blood_Pressure'', ''Heart_Rate'', ''Temperature'',
        ''Chest Pain'', ''Fever'', ''Seizure'', ''Gender_Male'']
   = [(''Age'', PInt 0), (''Blood_Pressure'', PInt 0), (''Heart_Rate'', PFloat (Fin 140)),
          (''Temperature'', PFloat (Fin 99)), (''Chest Pain'', PInt 0), (''Fever'', PInt 0),
          (''Seizure'', PInt 0), (''Gender_Male'', PInt 0)]"
  by (simp add: select_columns_def)

lemma sample_encode_140:
  "encode sample_env [(''Heart_Rate'', PFloat (Fin 140)), (''Temperature'', PFloat (Fin 99)), (''Gender'', PStr ''Female''),
           (''Pre_Existing_Conditions'', PStr ''None''), (''Age'', PInt 0), (''Blood_Pressure'', PInt 0)] []
   = Inr [(''Age'', PInt 0), (''Blood_Pressure'', PInt 0), (''Heart_Rate'', PFloat (Fin 140)),
          (''Temperature'', PFloat (Fin 99)), (''Chest Pain'', PInt 0), (''Fever'', PInt 0),
          (''Seizure'', PInt 0), (''Gender_Male'', PInt 0)]"
  unfolding encode_def Let_def sample_env_fields sample_symptoms_none append.simps
    sample_dummies_140 then_do_Inr sample_pad_140 sample_select_140 ..

lemma sample_preprocess_140:
  "preprocess sample_env [(''Heart_Rate'', PInt 140), (''Temperature'', PInt 99), (''Gender'', PStr ''Female'')]
   = Inr [(''Age'', PInt 0), (''Blood_Pressure'', PInt 0), (''Heart_Rate'', PFloat (Fin 140)),
          (''Temperature'', PFloat (Fin 99)), (''Chest Pain'', PInt 0), (''Fever'', PInt 0),
          (''Seizure'', PInt 0), (''Gender_Male'', PInt 0)]"
  by (simp add: preprocess_def sample_normalise_140 then_do_Inr sample_encode_140)

subsection \<open>The final department\<close>

lemma then_do_InrE:
  assumes "then_do m f = Inr y"
  obtains x where "m = Inr x" and "f x = Inr y"
  using assms by (cases m) (auto simp: then_do_def)

lemma safe_vitals_reads:
  assumes "safe_vitals_critical inp = Inr b"
  shows "b = (reads_above inp ''Heart_Rate'' 130 \<or> reads_above inp ''Temperature'' 103)"
proof -
  from assms [unfolded safe_vitals_critical_def]
  obtain hr where hr: "safe_float (dict_get inp ''Heart_Rate'' PNone) (PInt 0) = Inr hr"
    and k1: "then_do (py_gt hr 130) (\<lambda>b. if b then Inr True
               else then_do (safe_float (dict_get inp ''Temperature'' PNone) (PInt 0))
                      (\<lambda>t. py_gt t 103)) = Inr b"
    by (rule then_do_InrE)
  from k1 obtain b1 where b1: "py_gt hr 130 = Inr b1"
    and k2: "(if b1 then Inr True
              else then_do (safe_float (dict_get inp ''Temperature'' PNone) (PInt 0))
                     (\<lambda>t. py_gt t 103)) = Inr b"
    by (rule then_do_InrE)
  have ra: "reads_above inp ''Heart_Rate'' 130 = b1"
    by (simp add: reads_above_def hr b1)
  show ?thesis
  proof (cases b1)
    case True
    with k2 ra show ?thesis by simp
  next
    case False
    with k2 have "then_do (safe_float (dict_get inp ''Temperature'' PNone) (PInt 0))
                     (\<lambda>t. py_gt t 103) = Inr b" by simp
    then obtain t where t: "safe_float (dict_get inp ''Temperature'' PNone) (PInt 0) = Inr t"
      and bt: "py_gt t 103 = Inr b"
      by (rule then_do_InrE)
    have "reads_above inp ''Temperature'' 103 = b" by (simp add: reads_above_def t bt)
    with ra False show ?thesis by simp
  qed
qed

text \<open>
  Whenever the pipeline returns a result, the router has returned before, and the
  recommended department follows the three tiers: Emergency if the predicted risk is High
  and the heart rate read from the input is above 130 or the temperature is above 103;
  otherwise the label of the learned model when that is not empty; otherwise the result
  of the rule-based router.
\<close>

lemma department_precedence_when_returned:
  assumes "predict_patient E inp ehr = Inr res"
  shows "\<exists>df routed. preprocess E inp = Inr df
           \<and> recommend_department inp (predict_risk E df) = Inr routed
           \<and> recommended_department res =
               spec_department (predict_risk E df)
                 (reads_above inp ''Heart_Rate'' 130 \<or> reads_above inp ''Temperature'' 103)
                 (predict_dept E df) routed"
proof -
  note a = assms [unfolded predict_patient_def Let_def]
  from a obtain df where df: "preprocess E inp = Inr df" and a1: "then_do
      (safe_float (dict_get inp ''Patient_ID'' PNone) (PInt 0)) (\<lambda>pidv.
     then_do (py_int pidv) (\<lambda>patient_id.
     then_do (extract_ehr_summary (py_repr E) patient_id
               (Some (case ehr of None \<Rightarrow> ehr_df E | Some d \<Rightarrow> d))) (\<lambda>summary.
     then_do (recommend_department inp (predict_risk E df)) (\<lambda>routed_department.
     then_do (if predict_risk E df = ''High'' then safe_vitals_critical inp else Inr False)
       (\<lambda>forced.
     then_do (explain (feature_names_in E) (shap_of E df)) (\<lambda>explanation.
     then_do (calculate_priority_score (predict_risk E df) (max_proba E df)) (\<lambda>score.
     Inr \<lparr>risk_level = predict_risk E df, confidence = py_round3 (max_proba E df),
          priority_score = score,
          recommended_department =
            (if forced then ''Emergency''
             else if predict_dept E df = [] then routed_department else predict_dept E df),
          top_contributors = explanation,
          ehr_summary = summary\<rparr>))))))) = Inr res"
    by (rule then_do_InrE)
  from a1 obtain pidv where a2: "then_do (py_int pidv) (\<lambda>patient_id.
     then_do (extract_ehr_summary (py_repr E) patient_id
               (Some (case ehr of None \<Rightarrow> ehr_df E | Some d \<Rightarrow> d))) (\<lambda>summary.
     then_do (recommend_department inp (predict_risk E df)) (\<lambda>routed_department.
     then_do (if predict_risk E df = ''High'' then safe_vitals_critical inp else Inr False)
       (\<lambda>forced.
     then_do (explain (feature_names_in E) (shap_of E df)) (\<lambda>explanation.
     then_do (calculate_priority_score (predict_risk E df) (max_proba E df)) (\<lambda>score.
     Inr \<lparr>risk_level = predict_risk E df, confidence = py_round3 (max_proba E df),
          priority_score = score,
          recommended_department =
            (if forced then ''Emergency''
             else if predict_dept E df = [] then routed_department else predict_dept E df),
          top_contributors = explanation,
          ehr_summary = summary\<rparr>)))))) = Inr res"
    by (rule then_do_InrE)
  from a2 obtain patient_id where a3: "
     then_do (extract_ehr_summary (py_repr E) patient_id
               (Some (case ehr of None \<Rightarrow> ehr_df E | Some d \<Rightarrow> d))) (\<lambda>summary.
     then_do (recommend_department inp (predict_risk E df)) (\<lambda>routed_department.
     then_do (if predict_risk E df = ''High'' then safe_vitals_critical inp else Inr False)
       (\<lambda>forced.
     then_do (explain (feature_names_in E) (shap_of E df)) (\<lambda>explanation.
     then_do (calculate_priority_score (predict_risk E df) (max_proba E df)) (\<lambda>score.
     Inr \<lparr>risk_level = predict_risk E df, confidence = py_round3 (max_proba E df),
          priority_score = score,
          recommended_department =
            (if forced then ''Emergency''
             else if predict_dept E df = [] then routed_department else predict_dept E df),
          top_contributors = explanation,
          ehr_summary = summary\<rparr>))))) = Inr res"
    by (rule then_do_InrE)
  from a3 obtain summary where a4: "
     then_do (recommend_department inp (predict_risk E df)) (\<lambda>routed_department.
     then_do (if predict_risk E df = ''High'' then safe_vitals_critical inp else Inr False)
       (\<lambda>forced.
     then_do (explain (feature_names_in E) (shap_of E df)) (\<lambda>explanation.
     then_do (calculate_priority_score (predict_risk E df) (max_proba E df)) (\<lambda>score.
     Inr \<lparr>risk_level = predict_risk E df, confidence = py_round3 (max_proba E df),
          priority_score = score,
          recommended_department =
            (if forced then ''Emergency''
             else if predict_dept E df = [] then routed_department else predict_dept E df),
          top_contributors = explanation,
          ehr_summary = summary\<rparr>)))) = Inr res"
    by (rule then_do_InrE)
  from a4 obtain routed where rt: "recommend_department inp (predict_risk E df) = Inr routed"
    and a5: "
     then_do (if predict_risk E df = ''High'' then safe_vitals_critical inp else Inr False)
       (\<lambda>forced.
     then_do (explain (feature_names_in E) (shap_of E df)) (\<lambda>explanation.
     then_do (calculate_priority_score (predict_risk E df) (max_proba E df)) (\<lambda>score.
     Inr \<lparr>risk_level = predict_risk E df, confidence = py_round3 (max_proba E df),
          priority_score = score,
          recommended_department =
            (if forced then ''Emergency''
             else if predict_dept E df = [] then routed else predict_dept E df),
          top_contributors = explanation,
          ehr_summary = summary\<rparr>))) = Inr res"
    by (rule then_do_InrE)
  from a5 obtain forced where
      f: "(if predict_risk E df = ''High'' then safe_vitals_critical inp else Inr False) = Inr forced"
    and a6: "
     then_do (explain (feature_names_in E) (shap_of E df)) (\<lambda>explanation.
     then_do (calculate_priority_score (predict_risk E df) (max_proba E df)) (\<lambda>score.
     Inr \<lparr>risk_level = predict_risk E df, confidence = py_round3 (max_proba E df),
          priority_score = score,
          recommended_department =
            (if forced then ''Emergency''
             else if predict_dept E df = [] then routed else predict_dept E df),
          top_contributors = explanation,
          ehr_summary = summary\<rparr>)) = Inr res"
    by (rule then_do_InrE)
  from a6 obtain explanation where a7: "
     then_do (calculate_priority_score (predict_risk E df) (max_proba E df)) (\<lambda>score.
     Inr \<lparr>risk_level = predict_risk E df, confidence = py_round3 (max_proba E df),
          priority_score = score,
          recommended_department =
            (if forced then ''Emergency''
             else if predict_dept E df = [] then routed else predict_dept E df),
          top_contributors = explanation,
          ehr_summary = summary\<rparr>) = Inr res"
    by (rule then_do_InrE)
  from a7 obtain score where a8: "
     Inr \<lparr>risk_level = predict_risk E df, confidence = py_round3 (max_proba E df),
          priority_score = score,
          recommended_department =
            (if forced then ''Emergency''
             else if predict_dept E df = [] then routed else predict_dept E df),
          top_contributors = explanation,
          ehr_summary = summary\<rparr> = (Inr res :: error + prediction)"
    by (rule then_do_InrE)
  then have r: "recommended_department res =
              (if forced then ''Emergency''
               else if predict_dept E df = [] then routed else predict_dept E df)"
    by auto
  have fc: "forced = (predict_risk E df = ''High''
                  \<and> (reads_above inp ''Heart_Rate'' 130 \<or> reads_above inp ''Temperature'' 103))"
  proof (cases "predict_risk E df = ''High''")
    case True
    with f have "safe_vitals_critical inp = Inr forced" by simp
    from safe_vitals_reads [OF this] True show ?thesis by simp
  next
    case False
    with f show ?thesis by simp
  qed
  have "recommended_department res =
               spec_department (predict_risk E df)
                 (reads_above inp ''Heart_Rate'' 130 \<or> reads_above inp ''Temperature'' 103)
                 (predict_dept E df) routed"
    unfolding r fc spec_department_def by auto
  with df rt show ?thesis by blast
qed

lemma sample_summary_default:
  "extract_ehr_summary (\<lambda>v. ''?'') 0
     (Some \<lparr>columns = [''Patient_ID'', ''Past_Visits'', ''Last_Risk_Level'', ''Avg_BP'',
                        ''Avg_Heart_Rate'', ''Chronic_Conditions''],
             rows = [[PInt 7, PInt 3, PStr ''Low'', PFloat (Fin 120), PFloat (Fin 72),
                      PStr ''Asthma'']]\<rparr>) = Inr build_default_ehr_summary"
  by (simp add: extract_ehr_summary_def row_get_def)

lemma sample_risk_140:
  "predict_risk sample_env
     [(''Age'', PInt 0), (''Blood_Pressure'', PInt 0), (''Heart_Rate'', PFloat (Fin 140)),
      (''Temperature'', PFloat (Fin 99)), (''Chest Pain'', PInt 0), (''Fever'', PInt 0),
      (''Seizure'', PInt 0), (''Gender_Male'', PInt 0)] = ''High''"
  by (simp add: sample_predict_risk dict_get_def)

lemma sample_router_140:
  "recommend_department
     [(''Heart_Rate'', PInt 140), (''Temperature'', PInt 99), (''Gender'', PStr ''Female'')] ''High''
   = Inr ''Emergency''"
  by (simp add: recommend_department_def vitals_critical_def dict_index_def then_do_Inr)

lemma sample_vitals_140:
  "safe_vitals_critical
     [(''Heart_Rate'', PInt 140), (''Temperature'', PInt 99), (''Gender'', PStr ''Female'')] = Inr True"
  by (simp add: safe_vitals_critical_def dict_get_def safe_float_140 then_do_Inr)

lemma sample_mean_abs:
  "mean_abs_axis0 [[[1 / 10, - 1 / 5, 2 / 5, 0, 1 / 5, 0, 0, 0]],
                   [[- 1 / 10, 1 / 5, - 2 / 5, 0, - 1 / 5, 0, 0, 0]]]
   = [[1 / 10, 1 / 5, 2 / 5, 0, 1 / 5, 0, 0, 0]]"
  by (simp add: mean_abs_axis0_def)

lemma sample_sorted:
  "sort_key (\<lambda>x. - snd x)
     [(''Age'', 1 / 10), (''Blood_Pressure'', 1 / 5), (''Heart_Rate'', 2 / 5), (''Temperature'', 0),
      (''Chest Pain'', 1 / 5), (''Fever'', 0), (''Seizure'', 0), (''Gender_Male'', 0 :: real)]
   = [(''Heart_Rate'', 2 / 5), (''Blood_Pressure'', 1 / 5), (''Chest Pain'', 1 / 5), (''Age'', 1 / 10),
      (''Temperature'', 0), (''Fever'', 0), (''Seizure'', 0), (''Gender_Male'', 0)]"
  by simp

lemma sample_dict_of:
  "dict_of [(''Heart_Rate'', 2 / 5 :: real), (''Blood_Pressure'', 1 / 5), (''Chest Pain'', 1 / 5)]
   = [(''Heart_Rate'', 2 / 5), (''Blood_Pressure'', 1 / 5), (''Chest Pain'', 1 / 5)]"
  by (simp add: dict_of_def)

lemma sample_explain:
  "explain [''Age'', ''Blood_Pressure'', ''Heart_Rate'', ''Temperature'',
            ''Chest Pain'', ''Fever'', ''Seizure'', ''Gender_Male'']
     (PerClass [[[1 / 10, - 1 / 5, 2 / 5, 0, 1 / 5, 0, 0, 0]],
                [[- 1 / 10, 1 / 5, - 2 / 5, 0, - 1 / 5, 0, 0, 0]]])
   = Inr [(''Heart_Rate'', 2 / 5), (''Blood_Pressure'', 1 / 5), (''Chest Pain'', 1 / 5)]"
proof -
  have z: "zip [''Age'', ''Blood_Pressure'', ''Heart_Rate'', ''Temperature'',
                ''Chest Pain'', ''Fever'', ''Seizure'', ''Gender_Male'']
               [1 / 10, 1 / 5, 2 / 5, 0, 1 / 5, 0, 0, 0 :: real]
     = [(''Age'', 1 / 10), (''Blood_Pressure'', 1 / 5), (''Heart_Rate'', 2 / 5), (''Temperature'', 0),
        (''Chest Pain'', 1 / 5), (''Fever'', 0), (''Seizure'', 0), (''Gender_Male'', 0)]"
    by simp
  have t: "take 3 [(''Heart_Rate'', 2 / 5), (''Blood_Pressure'', 1 / 5), (''Chest Pain'', 1 / 5),
                   (''Age'', 1 / 10), (''Temperature'', 0), (''Fever'', 0), (''Seizure'', 0),
                   (''Gender_Male'', 0 :: real)]
     = [(''Heart_Rate'', 2 / 5), (''Blood_Pressure'', 1 / 5), (''Chest Pain'', 1 / 5)]"
    by simp
  show ?thesis
    unfolding explain_def Let_def shap_values.case sample_mean_abs list.case z sample_sorted t
      sample_dict_of ..
qed

lemma sample_score: "calculate_priority_score ''High'' (Fin (3 / 4)) = Inr 95"
  by (simp add: calculate_priority_score_def base_score_def round_half_even_def
      round_double_def float_limit_def nearest_double_def double_exponent_def exp_up_numeral
      pow2_def Let_def)

lemma sample_round3: "py_round3 (Fin (3 / 4)) = Fin (3 / 4)"
  by (simp add: round_half_even_def)

lemma sample_predict_140:
  "predict_patient sample_env
     [(''Heart_Rate'', PInt 140), (''Temperature'', PInt 99), (''Gender'', PStr ''Female'')] None
   = Inr \<lparr>risk_level = ''High'', confidence = Fin (3 / 4), priority_score = 95,
          recommended_department = ''Emergency'',
          top_contributors = [(''Heart_Rate'', 2 / 5), (''Blood_Pressure'', 1 / 5), (''Chest Pain'', 1 / 5)],
          ehr_summary = build_default_ehr_summary\<rparr>"
proof -
  have pid: "safe_float (dict_get [(''Heart_Rate'', PInt 140), (''Temperature'', PInt 99),
               (''Gender'', PStr ''Female'')] ''Patient_ID'' PNone) (PInt 0) = Inr (PInt 0)"
    by (simp add: dict_get_def safe_float_None)
  show ?thesis
    unfolding predict_patient_def Let_def sample_preprocess_140 then_do_Inr pid py_int.simps
      option.case sample_env_fields sample_summary_default sample_risk_140 sample_router_140
      sample_vitals_140 sample_explain sample_score sample_round3
    by (simp add: then_do_Inr)
qed


text \<open>The example of the specification: risk High, heart rate 140, temperature 99.  The
  learned model says Cardiology and the result is Emergency.\<close>

lemma department_precedence_sample:
  "predict_patient sample_env
     [(''Heart_Rate'', PInt 140), (''Temperature'', PInt 99), (''Gender'', PStr ''Female'')] None
   = Inr \<lparr>risk_level = ''High'', confidence = Fin (3 / 4), priority_score = 95,
          recommended_department = ''Emergency'',
          top_contributors = [(''Heart_Rate'', 2 / 5), (''Blood_Pressure'', 1 / 5), (''Chest Pain'', 1 / 5)],
          ehr_summary = build_default_ehr_summary\<rparr>
   \<and> spec_department ''High''
         (reads_above [(''Heart_Rate'', PInt 140), (''Temperature'', PInt 99), (''Gender'', PStr ''Female'')]
            ''Heart_Rate'' 130
          \<or> reads_above [(''Heart_Rate'', PInt 140), (''Temperature'', PInt 99), (''Gender'', PStr ''Female'')]
            ''Temperature'' 103)
         ''Cardiology'' ''Emergency'' = ''Emergency''"
proof -
  have ra: "reads_above [(''Heart_Rate'', PInt 140), (''Temperature'', PInt 99), (''Gender'', PStr ''Female'')]
            ''Heart_Rate'' 130"
    by (simp add: reads_above_def dict_get_def safe_float_140)
  from department_precedence_when_returned [OF sample_predict_140] ra
  show ?thesis
    by (simp add: sample_predict_140 spec_department_def)
qed

lemma safe_float_105: "safe_float (PInt 105) d = Inr (PFloat (Fin 105))"
  using py_float_small_int [of 105] by (simp add: safe_float_def del: py_float.simps)

lemma alert_env_fields:
  "py_repr alert_env = (\<lambda>v. ''?'')"
  "predict_risk alert_env df = ''High''"
  "ehr_df alert_env = \<lparr>columns = [''Patient_ID'', ''Past_Visits'', ''Last_Risk_Level'', ''Avg_BP'',
                           ''Avg_Heart_Rate'', ''Chronic_Conditions''],
                rows = [[PInt 7, PInt 3, PStr ''Low'', PFloat (Fin 120), PFloat (Fin 72),
                         PStr ''Asthma'']]\<rparr>"
  by (simp_all add: alert_env_def sample_env_def)

lemma preprocess_alert_env: "preprocess alert_env inp = preprocess sample_env inp"
  by (simp add: preprocess_def normalise_def encode_def alert_env_def)

lemma sample_normalise_105:
  "normalise sample_env [(''Temperature'', PInt 105), (''Gender'', PStr ''Female'')]
   = Inr ([(''Temperature'', PFloat (Fin 105)), (''Gender'', PStr ''Female''),
           (''Pre_Existing_Conditions'', PStr ''None''), (''Age'', PInt 0), (''Blood_Pressure'', PInt 0),
           (''Heart_Rate'', PInt 0)], [])"
  by (simp add: normalise_def sample_env_fields dict_get_def dict_pop_def then_do_Inr Let_def
      safe_float_105 safe_float_None)

lemma sample_dummies_105:
  "get_dummies [(''Temperature'', PFloat (Fin 105)), (''Gender'', PStr ''Female''),
                (''Pre_Existing_Conditions'', PStr ''None''), (''Age'', PInt 0), (''Blood_Pressure'', PInt 0),
                (''Heart_Rate'', PInt 0),
                (''Chest Pain'', PInt 0), (''Fever'', PInt 0), (''Seizure'', PInt 0)]
               [''Gender'', ''Pre_Existing_Conditions'']
   = Inr [(''Temperature'', PFloat (Fin 105)), (''Age'', PInt 0), (''Blood_Pressure'', PInt 0),
          (''Heart_Rate'', PInt 0),
          (''Chest Pain'', PInt 0), (''Fever'', PInt 0), (''Seizure'', PInt 0)]"
  by (simp add: get_dummies_def)

lemma sample_pad_105:
  "pad_missing [(''Temperature'', PFloat (Fin 105)), (''Age'', PInt 0), (''Blood_Pressure'', PInt 0),
          (''Heart_Rate'', PInt 0),
          (''Chest Pain'', PInt 0), (''Fever'', PInt 0), (''Seizure'', PInt 0)]
       [''Age'', ''Blood_Pressure'', ''Heart_Rate'', ''Temperature'',
        ''Chest Pain'', ''Fever'', ''Seizure'', ''Gender_Male'']
   = [(''Temperature'', PFloat (Fin 105)), (''Age'', PInt 0), (''Blood_Pressure'', PInt 0),
          (''Heart_Rate'', PInt 0),
          (''Chest Pain'', PInt 0), (''Fever'', PInt 0), (''Seizure'', PInt 0),
          (''Gender_Male'', PInt 0)]"
  by (simp add: pad_missing_def)

lemma sample_select_105:
  "select_columns [(''Temperature'', PFloat (Fin 105)), (''Age'', PInt 0), (''Blood_Pressure'', PInt 0),
          (''Heart_Rate'', PInt 0),
          (''Chest Pain'', PInt 0), (''Fever'', PInt 0), (''Seizure'', PInt 0),
          (''Gender_Male'', PInt 0)]
       [''Age'', ''Blood_Pressure'', ''Heart_Rate'', ''Temperature'',
        ''Chest Pain'', ''Fever'', ''Seizure'', ''Gender_Male'']
   = [(''Age'', PInt 0), (''Blood_Pressure'', PInt 0), (''Heart_Rate'', PInt 0),
          (''Temperature'', PFloat (Fin 105)), (''Chest Pain'', PInt 0), (''Fever'', PInt 0),
          (''Seizure'', PInt 0), (''Gender_Male'', PInt 0)]"
  by (simp add: select_columns_def)

lemma sample_encode_105:
  "encode sample_env [(''Temperature'', PFloat (Fin 105)), (''Gender'', PStr ''Female''),
           (''Pre_Existing_Conditions'', PStr ''None''), (''Age'', PInt 0), (''Blood_Pressure'', PInt 0),
           (''Heart_Rate'', PInt 0)] []
   = Inr [(''Age'', PInt 0), (''Blood_Pressure'', PInt 0), (''Heart_Rate'', PInt 0),
          (''Temperature'', PFloat (Fin 105)), (''Chest Pain'', PInt 0), (''Fever'', PInt 0),
          (''Seizure'', PInt 0), (''Gender_Male'', PInt 0)]"
  unfolding encode_def Let_def sample_env_fields sample_symptoms_none append.simps
    sample_dummies_105 then_do_Inr sample_pad_105 sample_select_105 ..

lemma alert_preprocess_105:
  "preprocess alert_env [(''Temperature'', PInt 105), (''Gender'', PStr ''Female'')]
   = Inr [(''Age'', PInt 0), (''Blood_Pressure'', PInt 0), (''Heart_Rate'', PInt 0),
          (''Temperature'', PFloat (Fin 105)), (''Chest Pain'', PInt 0), (''Fever'', PInt 0),
          (''Seizure'', PInt 0), (''Gender_Male'', PInt 0)]"
  unfolding preprocess_alert_env
  by (simp add: preprocess_def sample_normalise_105 then_do_Inr sample_encode_105)

lemma router_105:
  "recommend_department [(''Temperature'', PInt 105), (''Gender'', PStr ''Female'')] ''High''
   = Inl KeyError"
  by (simp add: recommend_department_def vitals_critical_def dict_index_def then_do_Inl)

lemma reads_above_105:
  "reads_above [(''Temperature'', PInt 105), (''Gender'', PStr ''Female'')] ''Temperature'' 103"
  by (simp add: reads_above_def dict_get_def safe_float_105)

text \<open>
  C1.  The claim is that for every patient input the final department follows the three
  tiers, Emergency coming first when the risk is High and a vital sign is critical,
  whatever the rule-based router says.  On an input with temperature 105 and no heart
  rate, for which the classifier answers High, the first tier applies and the department
  is to be Emergency.  But \<^verbatim>\<open>predict_patient\<close> calls the router before the override
  (line 123), the router reads \<^verbatim>\<open>patient_data["Heart_Rate"]\<close> and raises
  \<^verbatim>\<open>KeyError\<close>, and no department is returned, although the override of lines 125-128
  reads the vital signs through \<^verbatim>\<open>get\<close> and \<^verbatim>\<open>_safe_float\<close> and would give
  Emergency.
\<close>

theorem predict_patient_raises_on_missing_vital:
  "preprocess alert_env [(''Temperature'', PInt 105), (''Gender'', PStr ''Female'')]
   = Inr [(''Age'', PInt 0), (''Blood_Pressure'', PInt 0), (''Heart_Rate'', PInt 0),
          (''Temperature'', PFloat (Fin 105)), (''Chest Pain'', PInt 0), (''Fever'', PInt 0),
          (''Seizure'', PInt 0), (''Gender_Male'', PInt 0)]
   \<and> predict_risk alert_env
         [(''Age'', PInt 0), (''Blood_Pressure'', PInt 0), (''Heart_Rate'', PInt 0),
          (''Temperature'', PFloat (Fin 105)), (''Chest Pain'', PInt 0), (''Fever'', PInt 0),
          (''Seizure'', PInt 0), (''Gender_Male'', PInt 0)] = ''High''
   \<and> reads_above [(''Temperature'', PInt 105), (''Gender'', PStr ''Female'')] ''Temperature'' 103
   \<and> spec_department ''High''
         (reads_above [(''Temperature'', PInt 105), (''Gender'', PStr ''Female'')] ''Heart_Rate'' 130
          \<or> reads_above [(''Temperature'', PInt 105), (''Gender'', PStr ''Female'')] ''Temperature'' 103)
         ''Cardiology'' ''General Medicine'' = ''Emergency''
   \<and> predict_patient alert_env [(''Temperature'', PInt 105), (''Gender'', PStr ''Female'')] None
       = Inl KeyError"
proof -
  have pid: "safe_float (dict_get [(''Temperature'', PInt 105), (''Gender'', PStr ''Female'')]
               ''Patient_ID'' PNone) (PInt 0) = Inr (PInt 0)"
    by (simp add: dict_get_def safe_float_None)
  have sd: "spec_department ''High''
         (reads_above [(''Temperature'', PInt 105), (''Gender'', PStr ''Female'')] ''Heart_Rate'' 130
          \<or> reads_above [(''Temperature'', PInt 105), (''Gender'', PStr ''Female'')] ''Temperature'' 103)
         ''Cardiology'' ''General Medicine'' = ''Emergency''"
    using reads_above_105 by (simp add: spec_department_def)
  have pp: "predict_patient alert_env [(''Temperature'', PInt 105), (''Gender'', PStr ''Female'')] None
       = Inl KeyError"
    unfolding predict_patient_def Let_def alert_preprocess_105 then_do_Inr pid py_int.simps
      option.case alert_env_fields sample_summary_default router_105 then_do_Inl ..
  from alert_preprocess_105 alert_env_fields(2) reads_above_105 sd pp show ?thesis by simp
qed

lemma float_of_string_140: "float_of_string ''140'' = Some (Fin 140)"
  by (simp add: float_of_string_def num_strip_def num_isspace_def to_lower_def
      parse_decimal_def is_digit_def drop_underscores_def nat_of_digits_def digit_val_def
      scale10_def float_of_real_def float_limit_def Let_def)

lemma safe_float_str_140: "safe_float (PStr ''140'') d = Inr (PFloat (Fin 140))"
  by (simp add: safe_float_def float_of_string_140)

lemma sample_normalise_str_140:
  "normalise sample_env [(''Heart_Rate'', PStr ''140''), (''Temperature'', PInt 99), (''Gender'', PStr ''Female'')]
   = Inr ([(''Heart_Rate'', PFloat (Fin 140)), (''Temperature'', PFloat (Fin 99)), (''Gender'', PStr ''Female''),
           (''Pre_Existing_Conditions'', PStr ''None''), (''Age'', PInt 0), (''Blood_Pressure'', PInt 0)], [])"
  by (simp add: normalise_def sample_env_fields dict_get_def dict_pop_def then_do_Inr Let_def
      safe_float_str_140 safe_float_99 safe_float_None)

lemma sample_preprocess_str_140:
  "preprocess sample_env [(''Heart_Rate'', PStr ''140''), (''Temperature'', PInt 99), (''Gender'', PStr ''Female'')]
   = Inr [(''Age'', PInt 0), (''Blood_Pressure'', PInt 0), (''Heart_Rate'', PFloat (Fin 140)),
          (''Temperature'', PFloat (Fin 99)), (''Chest Pain'', PInt 0), (''Fever'', PInt 0),
          (''Seizure'', PInt 0), (''Gender_Male'', PInt 0)]"
  by (simp add: preprocess_def sample_normalise_str_140 then_do_Inr sample_encode_140)

lemma sample_router_str_140:
  "recommend_department
     [(''Heart_Rate'', PStr ''140''), (''Temperature'', PInt 99), (''Gender'', PStr ''Female'')] ''High''
   = Inl TypeError"
  by (simp add: recommend_department_def vitals_critical_def dict_index_def then_do_Inr then_do_Inl)

text \<open>
  C3.  The claim is that \<^verbatim>\<open>predict_patient\<close>, with the rule-based router that it calls,
  returns a result on every input with missing or malformed fields.  On an input whose
  heart rate is the text 140 the normaliser reads 140 and the encoder returns its row;
  the classifier answers High; then the router compares the raw text with 130 and raises
  \<^verbatim>\<open>TypeError\<close>, although the override of lines 125-128 reads the same field through
  \<^verbatim>\<open>_safe_float\<close> and would give Emergency.
\<close>

theorem predict_patient_raises_on_text_vital:
  "preprocess sample_env
     [(''Heart_Rate'', PStr ''140''), (''Temperature'', PInt 99), (''Gender'', PStr ''Female'')]
   = Inr [(''Age'', PInt 0), (''Blood_Pressure'', PInt 0), (''Heart_Rate'', PFloat (Fin 140)),
          (''Temperature'', PFloat (Fin 99)), (''Chest Pain'', PInt 0), (''Fever'', PInt 0),
          (''Seizure'', PInt 0), (''Gender_Male'', PInt 0)]
   \<and> reads_above [(''Heart_Rate'', PStr ''140''), (''Temperature'', PInt 99), (''Gender'', PStr ''Female'')]
         ''Heart_Rate'' 130
   \<and> predict_patient sample_env
         [(''Heart_Rate'', PStr ''140''), (''Temperature'', PInt 99), (''Gender'', PStr ''Female'')] None
       = Inl TypeError"
proof -
  have pid: "safe_float (dict_get [(''Heart_Rate'', PStr ''140''), (''Temperature'', PInt 99),
               (''Gender'', PStr ''Female'')] ''Patient_ID'' PNone) (PInt 0) = Inr (PInt 0)"
    by (simp add: dict_get_def safe_float_None)
  have ra: "reads_above [(''Heart_Rate'', PStr ''140''), (''Temperature'', PInt 99), (''Gender'', PStr ''Female'')]
         ''Heart_Rate'' 130"
    by (simp add: reads_above_def dict_get_def safe_float_str_140)
  have pp: "predict_patient sample_env
         [(''Heart_Rate'', PStr ''140''), (''Temperature'', PInt 99), (''Gender'', PStr ''Female'')] None
       = Inl TypeError"
    unfolding predict_patient_def Let_def sample_preprocess_str_140 then_do_Inr pid py_int.simps
      option.case sample_env_fields sample_summary_default sample_risk_140 sample_router_str_140
      then_do_Inl ..
  from sample_preprocess_str_140 ra pp show ?thesis by simp
qed

subsection \<open>The columns of the encoded row\<close>

lemma keys_dict_set_image: "fst ` set (dict_set d k v) = insert k (fst ` set d)"
  by (induction d k v rule: dict_set.induct) auto

lemma keys_dict_set: "set (map fst (dict_set d k v)) = insert k (set (map fst d))"
  by (simp add: keys_dict_set_image)

lemma distinct_dict_set: "distinct (map fst d) \<Longrightarrow> distinct (map fst (dict_set d k v))"
  by (induction d k v rule: dict_set.induct) (auto simp: keys_dict_set_image)

lemma insert5_union: "insert e (insert d (insert c (insert b (insert a X)))) = X \<union> {a, b, c, d, e}"
  by blast

lemma keys_dict_pop: "set (map fst (dict_pop d k)) = set (map fst d) - {k}"
  by (auto simp: dict_pop_def)

lemma distinct_dict_pop: "distinct (map fst d) \<Longrightarrow> distinct (map fst (dict_pop d k))"
  by (simp add: dict_pop_def distinct_map_filter)

lemma normalise_keys:
  assumes "normalise E inp = Inr (patient, syms)" and "distinct (map fst inp)"
  shows "distinct (map fst patient)"
    and "set (map fst patient) =
           (set (map fst inp) - {''Symptoms''})
           \<union> {''Pre_Existing_Conditions'', ''Age'', ''Blood_Pressure'', ''Heart_Rate'', ''Temperature''}"
proof -
  define p0 where "p0 = dict_set (dict_pop inp ''Symptoms'') ''Pre_Existing_Conditions''
      (PStr (case normalize_conditions (py_repr E)
                    (dict_get (dict_pop inp ''Symptoms'') ''Pre_Existing_Conditions'' (PList [])) of
               [] \<Rightarrow> ''None'' | c # x \<Rightarrow> c))"
  note a = assms(1) [unfolded normalise_def Let_def, folded p0_def]
  from a obtain av where a1: "then_do (py_int av) (\<lambda>age.
         then_do (safe_float (dict_get (dict_set p0 ''Age'' (PInt age)) ''Blood_Pressure'' PNone) (PInt 0)) (\<lambda>bp.
         then_do (safe_float (dict_get (dict_set (dict_set p0 ''Age'' (PInt age)) ''Blood_Pressure'' bp)
                                ''Heart_Rate'' PNone) (PInt 0)) (\<lambda>hr.
         then_do (safe_float (dict_get (dict_set (dict_set (dict_set p0 ''Age'' (PInt age))
                                ''Blood_Pressure'' bp) ''Heart_Rate'' hr) ''Temperature'' PNone) (PInt 0)) (\<lambda>t.
         Inr (dict_set (dict_set (dict_set (dict_set p0 ''Age'' (PInt age)) ''Blood_Pressure'' bp)
                ''Heart_Rate'' hr) ''Temperature'' t,
              normalize_symptoms (py_repr E) (dict_get inp ''Symptoms'' (PList []))))))) = Inr (patient, syms)"
    by (rule then_do_InrE)
  from a1 obtain age where a2: "
         then_do (safe_float (dict_get (dict_set p0 ''Age'' (PInt age)) ''Blood_Pressure'' PNone) (PInt 0)) (\<lambda>bp.
         then_do (safe_float (dict_get (dict_set (dict_set p0 ''Age'' (PInt age)) ''Blood_Pressure'' bp)
                                ''Heart_Rate'' PNone) (PInt 0)) (\<lambda>hr.
         then_do (safe_float (dict_get (dict_set (dict_set (dict_set p0 ''Age'' (PInt age))
                                ''Blood_Pressure'' bp) ''Heart_Rate'' hr) ''Temperature'' PNone) (PInt 0)) (\<lambda>t.
         Inr (dict_set (dict_set (dict_set (dict_set p0 ''Age'' (PInt age)) ''Blood_Pressure'' bp)
                ''Heart_Rate'' hr) ''Temperature'' t,
              normalize_symptoms (py_repr E) (dict_get inp ''Symptoms'' (PList [])))))) = Inr (patient, syms)"
    by (rule then_do_InrE)
  from a2 obtain bp where a3: "
         then_do (safe_float (dict_get (dict_set (dict_set p0 ''Age'' (PInt age)) ''Blood_Pressure'' bp)
                                ''Heart_Rate'' PNone) (PInt 0)) (\<lambda>hr.
         then_do (safe_float (dict_get (dict_set (dict_set (dict_set p0 ''Age'' (PInt age))
                                ''Blood_Pressure'' bp) ''Heart_Rate'' hr) ''Temperature'' PNone) (PInt 0)) (\<lambda>t.
         Inr (dict_set (dict_set (dict_set (dict_set p0 ''Age'' (PInt age)) ''Blood_Pressure'' bp)
                ''Heart_Rate'' hr) ''Temperature'' t,
              normalize_symptoms (py_repr E) (dict_get inp ''Symptoms'' (PList []))))) = Inr (patient, syms)"
    by (rule then_do_InrE)
  from a3 obtain hr where a4: "
         then_do (safe_float (dict_get (dict_set (dict_set (dict_set p0 ''Age'' (PInt age))
                                ''Blood_Pressure'' bp) ''Heart_Rate'' hr) ''Temperature'' PNone) (PInt 0)) (\<lambda>t.
         Inr (dict_set (dict_set (dict_set (dict_set p0 ''Age'' (PInt age)) ''Blood_Pressure'' bp)
                ''Heart_Rate'' hr) ''Temperature'' t,
              normalize_symptoms (py_repr E) (dict_get inp ''Symptoms'' (PList [])))) = Inr (patient, syms)"
    by (rule then_do_InrE)
  from a4 obtain t where a5: "
         Inr (dict_set (dict_set (dict_set (dict_set p0 ''Age'' (PInt age)) ''Blood_Pressure'' bp)
                ''Heart_Rate'' hr) ''Temperature'' t,
              normalize_symptoms (py_repr E) (dict_get inp ''Symptoms'' (PList [])))
         = (Inr (patient, syms) :: error + pydict \<times> string list)"
    by (rule then_do_InrE)
  then have p: "patient = dict_set (dict_set (dict_set (dict_set p0 ''Age'' (PInt age)) ''Blood_Pressure'' bp)
                ''Heart_Rate'' hr) ''Temperature'' t"
    by simp
  have d0: "distinct (map fst p0)"
    unfolding p0_def using assms(2) by (intro distinct_dict_set distinct_dict_pop)
  have k0: "set (map fst p0) = insert ''Pre_Existing_Conditions'' (set (map fst inp) - {''Symptoms''})"
    unfolding p0_def by (simp only: keys_dict_set keys_dict_pop)
  show "distinct (map fst patient)"
    unfolding p using d0 by (intro distinct_dict_set)
  show "set (map fst patient) =
           (set (map fst inp) - {''Symptoms''})
           \<union> {''Pre_Existing_Conditions'', ''Age'', ''Blood_Pressure'', ''Heart_Rate'', ''Temperature''}"
    unfolding p keys_dict_set k0 by (rule insert5_union)
qed


lemma filter_label_absent: "n \<notin> fst ` set df \<Longrightarrow> filter (\<lambda>cv. fst cv = n) df = []"
  by (induction df) auto

lemma filter_label_present:
  "distinct (map fst df) \<Longrightarrow> n \<in> fst ` set df \<Longrightarrow> \<exists>v. filter (\<lambda>cv. fst cv = n) df = [(n, v)]"
proof (induction df)
  case Nil
  then show ?case by simp
next
  case (Cons a df)
  show ?case
  proof (cases "fst a = n")
    case True
    with Cons.prems(1) have "n \<notin> fst ` set df" by auto
    then have "filter (\<lambda>cv. fst cv = n) df = []" by (rule filter_label_absent)
    with True have "filter (\<lambda>cv. fst cv = n) (a # df) = [(n, snd a)]" by (cases a) simp
    then show ?thesis by blast
  next
    case False
    with Cons.prems have "distinct (map fst df)" and "n \<in> fst ` set df" by auto
    from Cons.IH [OF this] False show ?thesis by simp
  qed
qed

lemma pad_missing_Nil: "pad_missing df [] = df"
  by (simp add: pad_missing_def)

lemma pad_missing_Cons:
  "pad_missing df (a # ns) = pad_missing (if a \<in> fst ` set df then df else df @ [(a, PInt 0)]) ns"
  by (simp add: pad_missing_def)

lemma pad_missing_distinct:
  "distinct (map fst df) \<Longrightarrow> distinct (map fst (pad_missing df names))"
proof (induction names arbitrary: df)
  case Nil
  then show ?case by (simp add: pad_missing_Nil)
next
  case (Cons a ns)
  have "distinct (map fst (if a \<in> fst ` set df then df else df @ [(a, PInt 0)]))"
    using Cons.prems by auto
  from Cons.IH [OF this] show ?case by (simp only: pad_missing_Cons)
qed

lemma pad_missing_keys: "fst ` set (pad_missing df names) = fst ` set df \<union> set names"
proof (induction names arbitrary: df)
  case Nil
  then show ?case by (simp add: pad_missing_Nil)
next
  case (Cons a ns)
  show ?case
    unfolding pad_missing_Cons Cons.IH by auto
qed

lemma select_columns_Nil: "select_columns df [] = []"
  by (simp add: select_columns_def)

lemma select_columns_Cons:
  "select_columns df (n # ns) = filter (\<lambda>cv. fst cv = n) df @ select_columns df ns"
  by (simp add: select_columns_def)

lemma select_columns_labels:
  "distinct (map fst df) \<Longrightarrow> set names \<subseteq> fst ` set df \<Longrightarrow> map fst (select_columns df names) = names"
proof (induction names)
  case Nil
  then show ?case by (simp add: select_columns_Nil)
next
  case (Cons n ns)
  from Cons.prems have "n \<in> fst ` set df" by simp
  from filter_label_present [OF Cons.prems(1) this]
  obtain v where "filter (\<lambda>cv. fst cv = n) df = [(n, v)]" by blast
  moreover from Cons have "map fst (select_columns df ns) = ns" by simp
  ultimately show ?case by (simp add: select_columns_Cons)
qed

lemma reconcile_labels:
  "distinct (map fst df) \<Longrightarrow> map fst (select_columns (pad_missing df names) names) = names"
  by (rule select_columns_labels) (simp_all add: pad_missing_distinct pad_missing_keys)

lemma get_dummies_Inr:
  "get_dummies df cols = Inr df' \<Longrightarrow> df' = filter (\<lambda>cv. fst cv \<notin> set cols) df"
  by (simp add: get_dummies_def split: if_splits)

lemma symptom_transform_labels: "map fst (symptom_transform classes syms) = classes"
  by (simp add: symptom_transform_def comp_def)

lemma map_fst_filter: "map fst (filter (\<lambda>cv. P (fst cv)) xs) = filter P (map fst xs)"
  by (induction xs) auto

lemma distinct_kept_apart:
  "distinct xs \<Longrightarrow> distinct ys \<Longrightarrow> set ys \<inter> set xs \<subseteq> D \<Longrightarrow>
   distinct (filter (\<lambda>k. k \<notin> D) xs @ filter (\<lambda>k. k \<notin> D) ys)"
  by auto

lemma encode_labels:
  assumes enc: "encode E patient syms = Inr df"
    and dp: "distinct (map fst patient)"
    and dc: "distinct (symptom_classes E)"
    and dj: "set (symptom_classes E) \<inter> set (map fst patient)
             \<subseteq> set [''Gender'', ''Pre_Existing_Conditions'']"
  shows "map fst df = feature_names_in E"
proof -
  let ?tab = "patient @ symptom_transform (symptom_classes E) syms"
  from enc [unfolded encode_def Let_def]
  obtain df1 where g: "get_dummies ?tab [''Gender'', ''Pre_Existing_Conditions''] = Inr df1"
    and r: "Inr (select_columns (pad_missing df1 (feature_names_in E)) (feature_names_in E))
            = (Inr df :: error + frame)"
    by (rule then_do_InrE)
  let ?keep = "\<lambda>k. k \<notin> set [''Gender'', ''Pre_Existing_Conditions'']"
  have df1: "df1 = filter (\<lambda>cv. ?keep (fst cv)) ?tab"
    using get_dummies_Inr [OF g] .
  have "map fst df1 = filter ?keep (map fst ?tab)"
    unfolding df1 by (rule map_fst_filter)
  then have "map fst df1 = filter ?keep (map fst patient) @ filter ?keep (symptom_classes E)"
    by (simp only: map_append filter_append symptom_transform_labels)
  moreover have "distinct (filter ?keep (map fst patient) @ filter ?keep (symptom_classes E))"
    using dp dc dj by (rule distinct_kept_apart)
  ultimately have "distinct (map fst df1)" by simp
  then have "map fst (select_columns (pad_missing df1 (feature_names_in E)) (feature_names_in E))
             = feature_names_in E"
    by (rule reconcile_labels)
  with r show ?thesis by simp
qed

lemma vocabulary_apart:
  "C \<inter> (K \<union> {a, b, c, d}) = {} \<Longrightarrow> C \<inter> ((K - {s}) \<union> {p, a, b, c, d}) \<subseteq> set [g, p]"
  by auto

text \<open>
  Where the reconciliation succeeds: when the keys of the raw input are distinct, the
  symptom vocabulary consists of distinct words, and no key of the input and none of the
  four numeric field names is a word of the vocabulary, a row that \<^verbatim>\<open>preprocess\<close>
  returns has the labels that the classifier declares, in the declared order.
\<close>

lemma preprocess_columns:
  assumes pre: "preprocess E inp = Inr df"
    and di: "distinct (map fst inp)"
    and dc: "distinct (symptom_classes E)"
    and dj: "set (symptom_classes E)
             \<inter> (set (map fst inp) \<union> {''Age'', ''Blood_Pressure'', ''Heart_Rate'', ''Temperature''}) = {}"
  shows "map fst df = feature_names_in E"
proof -
  from pre [unfolded preprocess_def]
  obtain ps where n: "normalise E inp = Inr ps"
    and e: "(case ps of (patient, symptoms_list) \<Rightarrow> encode E patient symptoms_list) = Inr df"
    by (rule then_do_InrE)
  obtain patient syms where ps: "ps = (patient, syms)" by (cases ps)
  from e ps have enc: "encode E patient syms = Inr df" by simp
  note dp = normalise_keys(1) [OF n [unfolded ps] di]
  note keys = normalise_keys(2) [OF n [unfolded ps] di]
  have "set (symptom_classes E) \<inter> set (map fst patient)
        \<subseteq> set [''Gender'', ''Pre_Existing_Conditions'']"
    unfolding keys using dj by (rule vocabulary_apart)
  with enc dp dc show ?thesis by (rule encode_labels)
qed

lemma preprocess_columns_sample:
  "preprocess sample_env
     [(''Heart_Rate'', PInt 140), (''Temperature'', PInt 99), (''Gender'', PStr ''Female'')]
   = Inr [(''Age'', PInt 0), (''Blood_Pressure'', PInt 0), (''Heart_Rate'', PFloat (Fin 140)),
          (''Temperature'', PFloat (Fin 99)), (''Chest Pain'', PInt 0), (''Fever'', PInt 0),
          (''Seizure'', PInt 0), (''Gender_Male'', PInt 0)]
   \<and> distinct (map fst [(''Heart_Rate'', PInt 140), (''Temperature'', PInt 99), (''Gender'', PStr ''Female'')])
   \<and> distinct (symptom_classes sample_env)
   \<and> set (symptom_classes sample_env)
       \<inter> (set (map fst [(''Heart_Rate'', PInt 140), (''Temperature'', PInt 99), (''Gender'', PStr ''Female'')])
          \<union> {''Age'', ''Blood_Pressure'', ''Heart_Rate'', ''Temperature''}) = {}
   \<and> map fst [(''Age'', PInt 0), (''Blood_Pressure'', PInt 0), (''Heart_Rate'', PFloat (Fin 140)),
          (''Temperature'', PFloat (Fin 99)), (''Chest Pain'', PInt 0), (''Fever'', PInt 0),
          (''Seizure'', PInt 0), (''Gender_Male'', PInt 0)] = feature_names_in sample_env"
proof -
  have h2: "distinct (map fst [(''Heart_Rate'', PInt 140), (''Temperature'', PInt 99),
                               (''Gender'', PStr ''Female'')])"
    by simp
  have h3: "distinct (symptom_classes sample_env)"
    by (simp add: sample_env_fields)
  have h4: "set (symptom_classes sample_env)
       \<inter> (set (map fst [(''Heart_Rate'', PInt 140), (''Temperature'', PInt 99), (''Gender'', PStr ''Female'')])
          \<union> {''Age'', ''Blood_Pressure'', ''Heart_Rate'', ''Temperature''}) = {}"
    by (simp add: sample_env_fields)
  from preprocess_columns [OF sample_preprocess_140 h2 h3 h4] sample_preprocess_140 h2 h3 h4
  show ?thesis by simp
qed

lemma sample_normalise_fever:
  "normalise sample_env [(''Gender'', PStr ''Male''), (''Fever'', PStr ''yes'')]
   = Inr ([(''Gender'', PStr ''Male''), (''Fever'', PStr ''yes''),
           (''Pre_Existing_Conditions'', PStr ''None''), (''Age'', PInt 0), (''Blood_Pressure'', PInt 0),
           (''Heart_Rate'', PInt 0), (''Temperature'', PInt 0)], [])"
  by (simp add: normalise_def sample_env_fields dict_get_def dict_pop_def then_do_Inr Let_def
      safe_float_None)

lemma sample_dummies_fever:
  "get_dummies [(''Gender'', PStr ''Male''), (''Fever'', PStr ''yes''),
                (''Pre_Existing_Conditions'', PStr ''None''), (''Age'', PInt 0), (''Blood_Pressure'', PInt 0),
                (''Heart_Rate'', PInt 0), (''Temperature'', PInt 0),
                (''Chest Pain'', PInt 0), (''Fever'', PInt 0), (''Seizure'', PInt 0)]
               [''Gender'', ''Pre_Existing_Conditions'']
   = Inr [(''Fever'', PStr ''yes''), (''Age'', PInt 0), (''Blood_Pressure'', PInt 0),
          (''Heart_Rate'', PInt 0), (''Temperature'', PInt 0),
          (''Chest Pain'', PInt 0), (''Fever'', PInt 0), (''Seizure'', PInt 0)]"
  by (simp add: get_dummies_def)

lemma sample_pad_fever:
  "pad_missing [(''Fever'', PStr ''yes''), (''Age'', PInt 0), (''Blood_Pressure'', PInt 0),
          (''Heart_Rate'', PInt 0), (''Temperature'', PInt 0),
          (''Chest Pain'', PInt 0), (''Fever'', PInt 0), (''Seizure'', PInt 0)]
       [''Age'', ''Blood_Pressure'', ''Heart_Rate'', ''Temperature'',
        ''Chest Pain'', ''Fever'', ''Seizure'', ''Gender_Male'']
   = [(''Fever'', PStr ''yes''), (''Age'', PInt 0), (''Blood_Pressure'', PInt 0),
          (''Heart_Rate'', PInt 0), (''Temperature'', PInt 0),
          (''Chest Pain'', PInt 0), (''Fever'', PInt 0), (''Seizure'', PInt 0),
          (''Gender_Male'', PInt 0)]"
  by (simp add: pad_missing_def)

lemma sample_select_fever:
  "select_columns [(''Fever'', PStr ''yes''), (''Age'', PInt 0), (''Blood_Pressure'', PInt 0),
          (''Heart_Rate'', PInt 0), (''Temperature'', PInt 0),
          (''Chest Pain'', PInt 0), (''Fever'', PInt 0), (''Seizure'', PInt 0),
          (''Gender_Male'', PInt 0)]
       [''Age'', ''Blood_Pressure'', ''Heart_Rate'', ''Temperature'',
        ''Chest Pain'', ''Fever'', ''Seizure'', ''Gender_Male'']
   = [(''Age'', PInt 0), (''Blood_Pressure'', PInt 0), (''Heart_Rate'', PInt 0),
      (''Temperature'', PInt 0), (''Chest Pain'', PInt 0), (''Fever'', PStr ''yes''),
      (''Fever'', PInt 0), (''Seizure'', PInt 0), (''Gender_Male'', PInt 0)]"
  by (simp add: select_columns_def)

lemma sample_encode_fever:
  "encode sample_env [(''Gender'', PStr ''Male''), (''Fever'', PStr ''yes''),
           (''Pre_Existing_Conditions'', PStr ''None''), (''Age'', PInt 0), (''Blood_Pressure'', PInt 0),
           (''Heart_Rate'', PInt 0), (''Temperature'', PInt 0)] []
   = Inr [(''Age'', PInt 0), (''Blood_Pressure'', PInt 0), (''Heart_Rate'', PInt 0),
      (''Temperature'', PInt 0), (''Chest Pain'', PInt 0), (''Fever'', PStr ''yes''),
      (''Fever'', PInt 0), (''Seizure'', PInt 0), (''Gender_Male'', PInt 0)]"
  unfolding encode_def Let_def sample_env_fields sample_symptoms_none append.simps
    sample_dummies_fever then_do_Inr sample_pad_fever sample_select_fever ..

text \<open>
  C2.  The claim is that the encoded row has exactly the columns that the classifier
  declares, in the declared order, for every raw input.  The loop of lines 68-70 and the
  selection by label of line 72 are there to bring this about, but they miss a raw input
  with a key that is also a word of the symptom vocabulary.  With the key Fever the
  table has two columns of that label, the one of the input and the one of the symptom
  encoder; the loop finds the label present, and \<^verbatim>\<open>df[names]\<close> returns both columns:
  the row has nine columns where the classifier declares eight.
\<close>

theorem preprocess_duplicates_vocabulary_key:
  "preprocess sample_env [(''Gender'', PStr ''Male''), (''Fever'', PStr ''yes'')]
   = Inr [(''Age'', PInt 0), (''Blood_Pressure'', PInt 0), (''Heart_Rate'', PInt 0),
      (''Temperature'', PInt 0), (''Chest Pain'', PInt 0), (''Fever'', PStr ''yes''),
      (''Fever'', PInt 0), (''Seizure'', PInt 0), (''Gender_Male'', PInt 0)]
   \<and> map fst [(''Age'', PInt 0), (''Blood_Pressure'', PInt 0), (''Heart_Rate'', PInt 0),
      (''Temperature'', PInt 0), (''Chest Pain'', PInt 0), (''Fever'', PStr ''yes''),
      (''Fever'', PInt 0), (''Seizure'', PInt 0), (''Gender_Male'', PInt 0)]
     \<noteq> feature_names_in sample_env
   \<and> length (feature_names_in sample_env) = 8"
  by (simp add: preprocess_def sample_normalise_fever then_do_Inr sample_encode_fever
      sample_env_fields)

subsection \<open>The numeric fields after normalisation\<close>














subsection \<open>The record summary\<close>













subsection \<open>The explanation engine\<close>














end
